theory Spec2Isabelle
  imports Main "HOL-Library.Word" "HOL-Library.Char_ord" "HOL-Library.List_Lexorder"
begin

section \<open>SpekeSession: the session layer of SpekeSession.cpp\<close>

subsection \<open>Data\<close>

type_synonym Bytes = "8 word list"

text \<open>The values of \<^verbatim>\<open>SpekeSessionState\<close> that SpekeSession.cpp names.\<close>

datatype SpekeSessionState =
    IDLE
  | RUNNING
  | STOPPED
  | STOPPED_ERROR
  | STOPPED_PEER_DISCONNECTED
  | STOPPED_PEER_PUBLIC_KEY_OR_ID_INVALID
  | STOPPED_KEY_CONFIRMATION_FAILED
  | STOPPED_PEER_BAD_BEHAVIOR

fun is_stopped :: "SpekeSessionState \<Rightarrow> bool" where
  "is_stopped IDLE = False"
| "is_stopped RUNNING = False"
| "is_stopped _ = True"

text \<open>
  An \<^verbatim>\<open>asio::error_code\<close> by its number, \<^verbatim>\<open>e.code().value()\<close>, which is all the two
  \<^verbatim>\<open>switch\<close> statements look at: two codes of different categories and the same number
  are one code here, as they are to the \<^verbatim>\<open>switch\<close>. The three numbers the
  \<^verbatim>\<open>case\<close> labels name are those of asio on Linux (asio/error.hpp is not among the
  sources): \<^verbatim>\<open>asio::error::eof\<close> is 2, \<^verbatim>\<open>bad_descriptor\<close> is \<^verbatim>\<open>EBADF\<close>, 9, and
  \<^verbatim>\<open>broken_pipe\<close> is \<^verbatim>\<open>EPIPE\<close>, 32.
\<close>

type_synonym error_code = int

definition eof :: error_code where
  "eof = 2"

definition bad_descriptor :: error_code where
  "bad_descriptor = 9"

definition broken_pipe :: error_code where
  "broken_pipe = 32"

text \<open>
  What can leave a function other than its return value. The first four are the error kinds
  of the engine and of the session's own state checks; \<open>invalid_argument\<close> is
  \<^verbatim>\<open>std::invalid_argument\<close>, \<open>system_error\<close> is \<^verbatim>\<open>asio::system_error\<close>;
  \<open>length_error\<close> and \<open>bad_alloc\<close> are what the constructor of a
  \<^verbatim>\<open>std::vector\<close> throws when it cannot build a vector of the size asked for. The last
  two are not C++ exceptions: a call through the released \<^verbatim>\<open>speke_\<close> pointer and a failed
  \<^verbatim>\<open>assert\<close>; no \<^verbatim>\<open>catch\<close> clause stops them.
\<close>

datatype exn =
    AlreadyInitialized
  | PeerKeyInvalid
  | NotInitialized
  | BadState
  | invalid_argument
  | system_error error_code
  | length_error
  | bad_alloc
  | null_dereference
  | assertion_failure

text \<open>
  The class of each exception, as the \<^verbatim>\<open>catch\<close> clauses of \<^verbatim>\<open>handle_read\<close> see it.
  SpekeSession.cpp:143 says that the \<^verbatim>\<open>std::logic_error\<close> of
  \<^verbatim>\<open>ProvideRemotePublicKeyIdPair\<close> is the one for a pair provided twice, and
  SpekeSession.cpp:147 that its \<^verbatim>\<open>std::runtime_error\<close> is the one for an invalid key or
  id. \<^verbatim>\<open>Run\<close> and \<^verbatim>\<open>SendMessage\<close> throw \<^verbatim>\<open>std::logic_error\<close> themselves;
  \<^verbatim>\<open>std::invalid_argument\<close> and \<^verbatim>\<open>std::length_error\<close> derive from
  \<^verbatim>\<open>std::logic_error\<close> and \<^verbatim>\<open>asio::system_error\<close> from \<^verbatim>\<open>std::runtime_error\<close>;
  \<^verbatim>\<open>std::bad_alloc\<close> derives from neither. \<open>NotInitialized\<close> is taken to
  be a \<^verbatim>\<open>std::logic_error\<close> as well.
\<close>

fun is_logic_error :: "exn \<Rightarrow> bool" where
  "is_logic_error AlreadyInitialized = True"
| "is_logic_error NotInitialized = True"
| "is_logic_error BadState = True"
| "is_logic_error invalid_argument = True"
| "is_logic_error length_error = True"
| "is_logic_error _ = False"

fun is_runtime_error :: "exn \<Rightarrow> bool" where
  "is_runtime_error PeerKeyInvalid = True"
| "is_runtime_error (system_error _) = True"
| "is_runtime_error _ = False"

text \<open>
  \<^verbatim>\<open>SpekeMessage\<close> (SPEKE.pb.h): three optional parts, with \<^verbatim>\<open>has_signed_data()\<close>,
  \<^verbatim>\<open>has_init_data()\<close> and \<^verbatim>\<open>has_key_confirmation()\<close>. A part that is present carries
  its fields: (hmac_signature, data), (id, public_key), data.
\<close>

record SpekeMessage =
  signed_data :: "(Bytes \<times> Bytes) option"
  init_data :: "(string \<times> Bytes) option"
  key_confirmation :: "Bytes option"

text \<open>
  \<^verbatim>\<open>SpekeInterface\<close>: the engine behind \<^verbatim>\<open>speke_\<close>, by its virtual member functions.
  The non-const ones return the engine as they leave it, with the exception they throw
  (\<open>Inl\<close>) or their result (\<open>Inr\<close>).
\<close>

record 'e SpekeInterface =
  GetId :: "'e \<Rightarrow> string"
  GetPublicKey :: "'e \<Rightarrow> Bytes"
  ProvideRemotePublicKeyIdPair :: "Bytes \<Rightarrow> string \<Rightarrow> 'e \<Rightarrow> exn option \<times> 'e"
  GetKeyConfirmationData :: "'e \<Rightarrow> (exn + Bytes) \<times> 'e"
  ConfirmKey :: "Bytes \<Rightarrow> 'e \<Rightarrow> (exn + bool) \<times> 'e"
  HmacSign :: "Bytes \<Rightarrow> 'e \<Rightarrow> (exn + Bytes) \<times> 'e"
  ConfirmHmacSignature :: "Bytes \<Rightarrow> Bytes \<Rightarrow> 'e \<Rightarrow> (exn + bool) \<times> 'e"

text \<open>A message handler is named by a number; what it does is in the configuration.\<close>

type_synonym MessageHandler = nat

text \<open>
  The members of \<^verbatim>\<open>SpekeSession\<close>, named without the underscore that ends them in
  the source. \<open>socket_is_open\<close> is \<^verbatim>\<open>socket_.is_open()\<close>;
  \<open>speke\<close> is \<open>None\<close> once the pointer has been reset. The last three fields record
  what the session does to the outside: the frames it has passed to \<^verbatim>\<open>asio::async_write\<close>,
  how many times it has called \<^verbatim>\<open>async_wait\<close>, and the handler invocations with their
  payloads.
\<close>

record 'e SpekeSession =
  socket_is_open :: bool
  speke :: "'e option"
  state :: SpekeSessionState
  closed :: bool
  bad_behavior_count :: nat
  message_handler :: "MessageHandler option"
  written :: "SpekeMessage list"
  reads_started :: nat
  delivered :: "(MessageHandler \<times> Bytes) list"

text \<open>
  The calls a handler, or any other caller, can make on a session: its public member
  functions. A call that writes to the socket carries what the transport answers: \<open>None\<close>
  when it takes the frame, the error code of the \<^verbatim>\<open>asio::system_error\<close> otherwise.
\<close>

datatype api_call =
    CallRun MessageHandler "error_code option"
  | CallClose SpekeSessionState
  | CallSetMessageHandler MessageHandler
  | CallSendMessage Bytes "error_code option"

text \<open>
  What the session is compiled and run with: the engine's implementation, the parser of
  the envelope (\<^verbatim>\<open>ParseFromArray\<close>: its success flag and the message it leaves), the
  constant \<^verbatim>\<open>BAD_BEHAVIOR_LIMIT\<close> of SpekeSession.h, and the body of each handler, as
  the calls it makes on the session for a payload.
\<close>

record 'e config =
  speke_iface :: "'e SpekeInterface"
  ParseFromArray :: "Bytes \<Rightarrow> bool \<times> SpekeMessage"
  BAD_BEHAVIOR_LIMIT :: nat
  handler_body :: "MessageHandler \<Rightarrow> Bytes \<Rightarrow> api_call list"

subsection \<open>Construction, Close, SetMessageHandler\<close>

text \<open>
  Modelled from the spec: the initial values of \<^verbatim>\<open>closed_\<close> and
  \<^verbatim>\<open>bad_behavior_count_\<close> are member initialisers of SpekeSession.h, which is not among
  the sources; the latch starts open and the count at zero. The rest is the constructor of
  SpekeSession.cpp:28.
\<close>

definition SpekeSession_new :: "bool \<Rightarrow> 'e option \<Rightarrow> exn + 'e SpekeSession" where
  "SpekeSession_new socket_open speke_ptr =
     (if \<not> socket_open then Inl invalid_argument
      else case speke_ptr of
        None \<Rightarrow> Inl invalid_argument
      | Some e \<Rightarrow>
          Inr \<lparr> socket_is_open = True, speke = Some e, state = IDLE, closed = False,
                bad_behavior_count = 0, message_handler = None,
                written = [], reads_started = 0, delivered = [] \<rparr>)"

definition Close :: "SpekeSessionState \<Rightarrow> 'e SpekeSession \<Rightarrow> 'e SpekeSession" where
  "Close st s =
     (if \<not> closed s
      then s\<lparr> closed := True, socket_is_open := False, speke := None, state := st \<rparr>
      else s)"

definition start_reading :: "'e SpekeSession \<Rightarrow> 'e SpekeSession" where
  "start_reading s = s\<lparr> reads_started := Suc (reads_started s) \<rparr>"

definition SetMessageHandler :: "MessageHandler \<Rightarrow> 'e SpekeSession \<Rightarrow> 'e SpekeSession" where
  "SetMessageHandler handler s = s\<lparr> message_handler := Some handler \<rparr>"

definition GetState :: "'e SpekeSession \<Rightarrow> SpekeSessionState" where
  "GetState s = state s"

subsection \<open>Sending\<close>

text \<open>
  The static \<^verbatim>\<open>SendMessage(message, socket)\<close>: it refuses a socket that is not open,
  and otherwise passes the frame to the transport, whose answer is \<open>wr\<close>.
\<close>

definition SendMessage_socket ::
  "error_code option \<Rightarrow> SpekeMessage \<Rightarrow> 'e SpekeSession \<Rightarrow> exn option \<times> 'e SpekeSession" where
  "SendMessage_socket wr message s =
     (if \<not> socket_is_open s then (Some invalid_argument, s)
      else (map_option system_error wr, s\<lparr> written := written s @ [message] \<rparr>))"

definition send_message ::
  "error_code option \<Rightarrow> SpekeMessage \<Rightarrow> 'e SpekeSession \<Rightarrow> exn option \<times> 'e SpekeSession" where
  "send_message wr message s =
     (case SendMessage_socket wr message s of
        (Some (system_error code), s') \<Rightarrow>
          (if code = eof \<or> code = bad_descriptor \<or> code = broken_pipe
           then (None, Close STOPPED_PEER_DISCONNECTED s')
           else (None, Close STOPPED_ERROR s'))
      | r \<Rightarrow> r)"

definition SendMessage ::
  "'e config \<Rightarrow> Bytes \<Rightarrow> error_code option \<Rightarrow> 'e SpekeSession \<Rightarrow> exn option \<times> 'e SpekeSession" where
  "SendMessage cfg message wr s =
     (if RUNNING \<noteq> state s then (Some BadState, s)
      else case speke s of
        None \<Rightarrow> (Some null_dereference, s)
      | Some e \<Rightarrow>
          (case HmacSign (speke_iface cfg) message e of
             (Inl x, e') \<Rightarrow> (Some x, s\<lparr> speke := Some e' \<rparr>)
           | (Inr hmac, e') \<Rightarrow>
               send_message wr
                 \<lparr> signed_data = Some (hmac, message), init_data = None, key_confirmation = None \<rparr>
                 (s\<lparr> speke := Some e' \<rparr>)))"

definition send_key_confirmation ::
  "'e config \<Rightarrow> error_code option \<Rightarrow> 'e SpekeSession \<Rightarrow> exn option \<times> 'e SpekeSession" where
  "send_key_confirmation cfg wr s =
     (case speke s of
        None \<Rightarrow> (Some null_dereference, s)
      | Some e \<Rightarrow>
          (case GetKeyConfirmationData (speke_iface cfg) e of
             (Inl x, e') \<Rightarrow> (Some x, s\<lparr> speke := Some e' \<rparr>)
           | (Inr kcd, e') \<Rightarrow>
               send_message wr
                 \<lparr> signed_data = None, init_data = None, key_confirmation = Some kcd \<rparr>
                 (s\<lparr> speke := Some e' \<rparr>)))"

subsection \<open>Run\<close>

text \<open>
  \<^verbatim>\<open>Run\<close> in the order of the source: the state check, the handler, the InitData
  message from the engine, \<^verbatim>\<open>start_reading\<close>, \<^verbatim>\<open>send_message\<close>, and last the
  assignment of \<open>RUNNING\<close>, which nothing guards.
\<close>

definition Run ::
  "'e config \<Rightarrow> MessageHandler \<Rightarrow> error_code option \<Rightarrow> 'e SpekeSession \<Rightarrow>
   exn option \<times> 'e SpekeSession" where
  "Run cfg handler wr s =
     (if state s \<noteq> IDLE then (Some BadState, s)
      else
        let s1 = SetMessageHandler handler s in
        (case speke s1 of
           None \<Rightarrow> (Some null_dereference, s1)
         | Some e \<Rightarrow>
             (case send_message wr
                     \<lparr> signed_data = None,
                       init_data =
                         Some (GetId (speke_iface cfg) e, GetPublicKey (speke_iface cfg) e),
                       key_confirmation = None \<rparr>
                     (start_reading s1) of
                (Some x, s3) \<Rightarrow> (Some x, s3)
              | (None, s3) \<Rightarrow> (None, s3\<lparr> state := RUNNING \<rparr>))))"

subsection \<open>The handler\<close>

fun api :: "'e config \<Rightarrow> api_call \<Rightarrow> 'e SpekeSession \<Rightarrow> exn option \<times> 'e SpekeSession" where
  "api cfg (CallRun handler wr) s = Run cfg handler wr s"
| "api cfg (CallClose st) s = (None, Close st s)"
| "api cfg (CallSetMessageHandler handler) s = (None, SetMessageHandler handler s)"
| "api cfg (CallSendMessage message wr) s = SendMessage cfg message wr s"

text \<open>A handler body runs its calls in order; an exception of a call ends it.\<close>

fun run_calls ::
  "'e config \<Rightarrow> api_call list \<Rightarrow> 'e SpekeSession \<Rightarrow> exn option \<times> 'e SpekeSession" where
  "run_calls cfg [] s = (None, s)"
| "run_calls cfg (c # cs) s =
     (case api cfg c s of
        (Some x, s') \<Rightarrow> (Some x, s')
      | (None, s') \<Rightarrow> run_calls cfg cs s')"

definition handle_message ::
  "'e config \<Rightarrow> Bytes \<Rightarrow> 'e SpekeSession \<Rightarrow> exn option \<times> 'e SpekeSession" where
  "handle_message cfg message s =
     (case message_handler s of
        None \<Rightarrow> (Some assertion_failure, s)
      | Some handler \<Rightarrow>
          run_calls cfg (handler_body cfg handler message)
            (s\<lparr> delivered := delivered s @ [(handler, message)] \<rparr>))"

subsection \<open>Receiving\<close>

text \<open>
  The static \<^verbatim>\<open>ReceiveMessage(socket)\<close>. \<open>rd\<close> is what reading a frame gives: the
  exception that ends it, or the body. The exception is the \<^verbatim>\<open>asio::system_error\<close> of
  one of the two \<^verbatim>\<open>asio::read\<close> calls, or what the vector for the body throws when the
  length read from the stream is more than it can hold (\<^verbatim>\<open>std::length_error\<close>,
  \<^verbatim>\<open>std::bad_alloc\<close>). The result of \<^verbatim>\<open>ParseFromArray\<close> is dropped and the message
  returned as the parser left it.
\<close>

definition ReceiveMessage ::
  "'e config \<Rightarrow> exn + Bytes \<Rightarrow> 'e SpekeSession \<Rightarrow> exn + SpekeMessage" where
  "ReceiveMessage cfg rd s =
     (if \<not> socket_is_open s then Inl invalid_argument
      else case rd of
        Inl x \<Rightarrow> Inl x
      | Inr message_arr \<Rightarrow> Inr (snd (ParseFromArray cfg message_arr)))"

definition receive_message ::
  "'e config \<Rightarrow> exn + Bytes \<Rightarrow> 'e SpekeSession \<Rightarrow>
   (exn + SpekeMessage option) \<times> 'e SpekeSession" where
  "receive_message cfg rd s =
     (case ReceiveMessage cfg rd s of
        Inr message \<Rightarrow> (Inr (Some message), s)
      | Inl (system_error code) \<Rightarrow>
          (if code = eof \<or> code = bad_descriptor \<or> code = broken_pipe
           then (Inr None, Close STOPPED_PEER_DISCONNECTED s)
           else (Inr None, Close STOPPED_ERROR s))
      | Inl x \<Rightarrow> (Inl x, s))"

definition increase_bad_behavior_count :: "'e config \<Rightarrow> 'e SpekeSession \<Rightarrow> 'e SpekeSession" where
  "increase_bad_behavior_count cfg s =
     (let s' = s\<lparr> bad_behavior_count := Suc (bad_behavior_count s) \<rparr>
      in if bad_behavior_count s' \<ge> BAD_BEHAVIOR_LIMIT cfg
         then Close STOPPED_PEER_BAD_BEHAVIOR s' else s')"

text \<open>
  The two \<^verbatim>\<open>catch\<close> clauses after the \<^verbatim>\<open>try\<close> block of \<^verbatim>\<open>handle_read\<close>: a
  \<^verbatim>\<open>std::logic_error\<close> is dropped and the function goes on to \<^verbatim>\<open>start_reading\<close>; a
  \<^verbatim>\<open>std::runtime_error\<close> closes the session and returns; anything else is not caught.
\<close>

definition handle_read_catch :: "exn \<Rightarrow> 'e SpekeSession \<Rightarrow> exn option \<times> 'e SpekeSession" where
  "handle_read_catch x s =
     (if is_logic_error x then (None, start_reading s)
      else if is_runtime_error x
        then (None, Close STOPPED_PEER_PUBLIC_KEY_OR_ID_INVALID s)
      else (Some x, s))"

text \<open>
  \<^verbatim>\<open>handle_read(ec)\<close>. \<open>ec\<close> is the error code of the wait when it is set (\<open>None\<close>:
  no error), \<open>rd\<close> the outcome of reading the frame, \<open>wr\<close> the transport's answer to
  the KeyConfirmation frame, should one be sent. The branches come in the order of the
  source: signed data, init data, key confirmation; a message with none of them goes
  straight to \<^verbatim>\<open>start_reading\<close>.
\<close>

definition handle_read ::
  "'e config \<Rightarrow> error_code option \<Rightarrow> exn + Bytes \<Rightarrow> error_code option \<Rightarrow>
   'e SpekeSession \<Rightarrow> exn option \<times> 'e SpekeSession" where
  "handle_read cfg ec rd wr s =
     (case ec of
        Some _ \<Rightarrow> (None, Close STOPPED_ERROR s)
      | None \<Rightarrow>
     (case receive_message cfg rd s of
        (Inl x, s1) \<Rightarrow> (Some x, s1)
      | (Inr None, s1) \<Rightarrow> (None, Close STOPPED_ERROR s1)
      | (Inr (Some message), s1) \<Rightarrow>
     (case signed_data message of
        Some (hmac, data) \<Rightarrow>
          (case speke s1 of
             None \<Rightarrow> (Some null_dereference, s1)
           | Some e \<Rightarrow>
               (case ConfirmHmacSignature (speke_iface cfg) hmac data e of
                  (Inl x, e') \<Rightarrow> (Some x, s1\<lparr> speke := Some e' \<rparr>)
                | (Inr True, e') \<Rightarrow>
                    (case handle_message cfg data (s1\<lparr> speke := Some e' \<rparr>) of
                       (Some x, s2) \<Rightarrow> (Some x, s2)
                     | (None, s2) \<Rightarrow> (None, start_reading s2))
                | (Inr False, e') \<Rightarrow>
                    (None, start_reading
                       (increase_bad_behavior_count cfg (s1\<lparr> speke := Some e' \<rparr>)))))
      | None \<Rightarrow>
     (case init_data message of
        Some (peer_id, pubkey) \<Rightarrow>
          (case speke s1 of
             None \<Rightarrow> (Some null_dereference, s1)
           | Some e \<Rightarrow>
               (case ProvideRemotePublicKeyIdPair (speke_iface cfg) pubkey peer_id e of
                  (Some x, e') \<Rightarrow> handle_read_catch x (s1\<lparr> speke := Some e' \<rparr>)
                | (None, e') \<Rightarrow>
                    (case send_key_confirmation cfg wr (s1\<lparr> speke := Some e' \<rparr>) of
                       (Some x, s2) \<Rightarrow> handle_read_catch x s2
                     | (None, s2) \<Rightarrow> (None, start_reading s2))))
      | None \<Rightarrow>
     (case key_confirmation message of
        Some kcd \<Rightarrow>
          (case speke s1 of
             None \<Rightarrow> (Some null_dereference, s1)
           | Some e \<Rightarrow>
               (case ConfirmKey (speke_iface cfg) kcd e of
                  (Inl x, e') \<Rightarrow> (Some x, s1\<lparr> speke := Some e' \<rparr>)
                | (Inr False, e') \<Rightarrow>
                    (None, Close STOPPED_KEY_CONFIRMATION_FAILED (s1\<lparr> speke := Some e' \<rparr>))
                | (Inr True, e') \<Rightarrow> (None, start_reading (s1\<lparr> speke := Some e' \<rparr>))))
      | None \<Rightarrow> (None, start_reading s1))))))"

subsection \<open>Executions\<close>

text \<open>
  What happens to a session: a call of a public member function, or the completion of a
  wait, which runs \<^verbatim>\<open>handle_read\<close>. An exception goes to whoever made the call; the
  session stays as the call left it.
\<close>

datatype event =
    Call api_call
  | ReadReady "error_code option" "exn + Bytes" "error_code option"

fun step :: "'e config \<Rightarrow> event \<Rightarrow> 'e SpekeSession \<Rightarrow> exn option \<times> 'e SpekeSession" where
  "step cfg (Call c) s = api cfg c s"
| "step cfg (ReadReady ec rd wr) s = handle_read cfg ec rd wr s"

definition exec :: "'e config \<Rightarrow> event list \<Rightarrow> 'e SpekeSession \<Rightarrow> 'e SpekeSession" where
  "exec cfg evs s = foldl (\<lambda>s ev. snd (step cfg ev s)) s evs"

text \<open>
  A session that has been closed with a terminal state: the latch is set, the socket is
  closed, and the state is one of the \<open>STOPPED\<close> values.
\<close>

definition latched :: "'e SpekeSession \<Rightarrow> bool" where
  "latched s = (closed s \<and> \<not> socket_is_open s \<and> is_stopped (state s))"

text \<open>
  What the constructor establishes and every member function keeps: the latch is set
  exactly when the socket is closed, and exactly when the engine has been released.
\<close>

definition session_inv :: "'e SpekeSession \<Rightarrow> bool" where
  "session_inv s = ((closed s = (\<not> socket_is_open s)) \<and> (closed s = (speke s = None)))"

section \<open>SPEKE: the engine declared in SPEKE.h\<close>

subsection \<open>Primitives and encodings\<close>

text \<open>
  The hash, the HMAC and the HKDF are outside the engine. \<open>Hash\<close> is \<open>H\<close>; \<open>Hmac\<close>
  takes the key first; \<open>Hkdf\<close> takes the keying material and the number of bytes to
  derive (salt and info are empty). \<open>KEY_LEN\<close> and \<open>NONCE_LEN\<close> come with the cipher.
\<close>

record primitives =
  Hash :: "Bytes \<Rightarrow> Bytes"
  Hmac :: "Bytes \<Rightarrow> Bytes \<Rightarrow> Bytes"
  Hkdf :: "Bytes \<Rightarrow> nat \<Rightarrow> Bytes"
  KEY_LEN :: nat
  NONCE_LEN :: nat

text \<open>
  Modelled from the spec: \<^verbatim>\<open>BigNum\<close> (BigNum.h is not among the sources) is a natural
  number; \<open>to_bytes\<close> is its big-endian unsigned encoding of minimal length and
  \<open>from_bytes\<close> reads such an encoding.
\<close>

fun to_bytes :: "nat \<Rightarrow> Bytes" where
  "to_bytes n = (if n = 0 then [] else to_bytes (n div 256) @ [of_nat (n mod 256)])"

declare to_bytes.simps [simp del]

definition from_bytes :: "Bytes \<Rightarrow> nat" where
  "from_bytes bs = foldl (\<lambda>acc b. acc * 256 + unat b) 0 bs"

definition bytes_of_string :: "string \<Rightarrow> Bytes" where
  "bytes_of_string str = map (\<lambda>c. of_nat (of_char c)) str"

text \<open>
  The decimal digits of a number, and \<^verbatim>\<open>std::to_string\<close> of an \<^verbatim>\<open>int\<close>: a minus
  sign before the digits of a negative value.
\<close>

definition digit_char :: "nat \<Rightarrow> char" where
  "digit_char d = ''0123456789'' ! d"

fun to_string :: "nat \<Rightarrow> string" where
  "to_string n =
     (if n < 10 then [digit_char n] else to_string (n div 10) @ [digit_char (n mod 10)])"

declare to_string.simps [simp del]

definition to_string_int :: "int \<Rightarrow> string" where
  "to_string_int i = (if i < 0 then CHR ''-'' # to_string (nat (- i)) else to_string (nat i))"

subsection \<open>The engine\<close>

text \<open>
  The data members of \<^verbatim>\<open>SPEKE\<close> (SPEKE.h:156-180), without the digest context.
  \<open>safe_prime_p\<close> is \<^verbatim>\<open>p_\<close>, \<open>order_q\<close> is \<^verbatim>\<open>q_\<close> and \<open>id_given\<close> is \<^verbatim>\<open>id_\<close>; the
  others have the names of the source without the underscore that ends them.
\<close>

record SPEKE =
  safe_prime_p :: nat
  order_q :: nat
  gen :: nat
  privkey :: nat
  pubkey :: nat
  id_given :: string
  id_numbered :: string
  remote_id_numbered :: string
  remote_pubkey :: nat
  encryption_key :: Bytes
  nonce :: Bytes
  key_confirmation_data :: Bytes
  initialized :: bool

text \<open>
  \<^verbatim>\<open>id_counts\<close> (SPEKE.h:62): the counters of the process, one \<^verbatim>\<open>int\<close> for each id,
  as a word of 32 bits that \<open>sint\<close> reads as the signed value. An id that has no entry
  counts zero, as \<^verbatim>\<open>operator[]\<close> of the map gives it.
\<close>

type_synonym id_counts = "string \<rightharpoonup> 32 word"

definition count_of :: "id_counts \<Rightarrow> string \<Rightarrow> 32 word" where
  "count_of counts name = (case counts name of None \<Rightarrow> 0 | Some c \<Rightarrow> c)"

text \<open>
  Modelled from the spec: the constructor of \<^verbatim>\<open>SPEKE\<close>, whose body (SPEKE.cpp) is not
  among the sources, after the five steps of section 4.1. The prime must be positive and
  odd; the generator is \<open>(H(password) mod p)\<^sup>2 mod p\<close> and must be neither at most 1 nor
  \<open>p - 1\<close>; the private key is drawn from \<open>[1, q - 1]\<close>, where \<open>draw\<close> is the number the
  random source gives; the public key is \<open>generator ^ privkey mod p\<close>; the numbered id is
  the id, a hyphen, and the next value of the counter of that id, which is stored. The
  increment of the \<^verbatim>\<open>int\<close> wraps around at 32 bits, as two's complement arithmetic
  does (C++ leaves the overflow of a signed integer undefined). A construction that is
  refused leaves the counters as they were.
\<close>

definition SPEKE_new ::
  "primitives \<Rightarrow> string \<Rightarrow> Bytes \<Rightarrow> nat \<Rightarrow> nat \<Rightarrow> id_counts \<Rightarrow>
   (exn + SPEKE) \<times> id_counts" where
  "SPEKE_new P name password safe_prime draw counts =
     (if safe_prime = 0 \<or> even safe_prime then (Inl invalid_argument, counts)
      else
        let q = (safe_prime - 1) div 2;
            g = (from_bytes (Hash P password) mod safe_prime) ^ 2 mod safe_prime
        in if g \<le> 1 \<or> g = safe_prime - 1 then (Inl invalid_argument, counts)
           else
             let priv = 1 + draw mod (q - 1);
                 n = count_of counts name + 1
             in (Inr \<lparr> safe_prime_p = safe_prime, order_q = q, gen = g, privkey = priv,
                       pubkey = g ^ priv mod safe_prime,
                       id_given = name, id_numbered = name @ ''-'' @ to_string_int (sint n),
                       remote_id_numbered = [], remote_pubkey = 0,
                       encryption_key = [], nonce = [], key_confirmation_data = [],
                       initialized = False \<rparr>,
                 counts(name \<mapsto> n)))"

text \<open>\<^verbatim>\<open>GetId\<close> returns \<^verbatim>\<open>id_\<close> (SPEKE.h:76).\<close>

definition SPEKE_GetId :: "SPEKE \<Rightarrow> string" where
  "SPEKE_GetId e = id_given e"

text \<open>
  Modelled from the spec: \<^verbatim>\<open>GetPublicKey\<close>, whose body is not among the sources, returns
  the big-endian bytes of the public key.
\<close>

definition SPEKE_GetPublicKey :: "SPEKE \<Rightarrow> Bytes" where
  "SPEKE_GetPublicKey e = to_bytes (pubkey e)"

text \<open>
  Modelled from the spec: \<^verbatim>\<open>make_keying_material\<close>, whose body is not among the sources,
  after the comment above its declaration (SPEKE.h:140-144) and section 4.1: the hash of
  the smaller and the larger of the two numbered ids, the smaller and the larger of the two
  public keys, and the shared secret \<open>peer_pubkey ^ privkey mod p\<close>. Ids compare as
  strings, byte by byte; keys compare as numbers.
\<close>

definition make_keying_material :: "primitives \<Rightarrow> string \<Rightarrow> nat \<Rightarrow> SPEKE \<Rightarrow> Bytes" where
  "make_keying_material P peer_id peer_pubkey e =
     Hash P
       (bytes_of_string (min (id_numbered e) peer_id) @
        bytes_of_string (max (id_numbered e) peer_id) @
        to_bytes (min (pubkey e) peer_pubkey) @
        to_bytes (max (pubkey e) peer_pubkey) @
        to_bytes (peer_pubkey ^ privkey e mod safe_prime_p e))"

text \<open>
  Modelled from the spec: \<^verbatim>\<open>make_encryption_key\<close>, whose body is not among the sources:
  \<open>KEY_LEN + NONCE_LEN\<close> bytes derived from the keying material; the first \<open>KEY_LEN\<close>
  are the encryption key, the next \<open>NONCE_LEN\<close> the nonce. The spec gives the peer's public
  key no part in it.
\<close>

definition make_encryption_key :: "primitives \<Rightarrow> Bytes \<Rightarrow> nat \<Rightarrow> Bytes \<times> Bytes" where
  "make_encryption_key P keying_material peer_pubkey =
     (let okm = Hkdf P keying_material (KEY_LEN P + NONCE_LEN P)
      in (take (KEY_LEN P) okm, take (NONCE_LEN P) (drop (KEY_LEN P) okm)))"

text \<open>
  Modelled from the spec: \<^verbatim>\<open>gen_kcd\<close>, whose body is not among the sources: the HMAC,
  under the encryption key, of the two ids and the two public keys in the order given.
\<close>

definition gen_kcd :: "primitives \<Rightarrow> string \<Rightarrow> string \<Rightarrow> nat \<Rightarrow> nat \<Rightarrow> SPEKE \<Rightarrow> Bytes" where
  "gen_kcd P first_id second_id first_pubkey second_pubkey e =
     Hmac P (encryption_key e)
       (bytes_of_string first_id @ bytes_of_string second_id @
        to_bytes first_pubkey @ to_bytes second_pubkey)"

text \<open>
  Modelled from the spec: \<^verbatim>\<open>check_initialized\<close>, whose body is not among the sources,
  fails with \<open>NotInitialized\<close> before a remote pair has been accepted.
\<close>

definition check_initialized :: "SPEKE \<Rightarrow> exn option" where
  "check_initialized e = (if initialized e then None else Some NotInitialized)"

text \<open>
  Modelled from the spec: \<^verbatim>\<open>ProvideRemotePublicKeyIdPair\<close>, whose body is not among the
  sources, after the table of section 4.1. An engine that is initialized refuses with
  \<open>AlreadyInitialized\<close>. Otherwise the key is read as a number \<open>v\<close>, which must satisfy
  \<open>1 < v < p - 1\<close> and differ from the generator, or the call fails with
  \<open>PeerKeyInvalid\<close>. Then the remote id and key are stored, the keying material, the
  encryption key and the nonce are computed, the local key confirmation data is
  \<open>kcd(remote id, own id, remote key, own key)\<close>, and the engine is initialized. A call
  that fails leaves the engine as it was.
\<close>

definition SPEKE_ProvideRemotePublicKeyIdPair ::
  "primitives \<Rightarrow> Bytes \<Rightarrow> string \<Rightarrow> SPEKE \<Rightarrow> exn option \<times> SPEKE" where
  "SPEKE_ProvideRemotePublicKeyIdPair P remote_pubkey_bytes remote_id e =
     (if initialized e then (Some AlreadyInitialized, e)
      else
        let v = from_bytes remote_pubkey_bytes
        in if \<not> (1 < v \<and> v < safe_prime_p e - 1) \<or> v = gen e then (Some PeerKeyInvalid, e)
           else
             let e1 = e\<lparr> remote_id_numbered := remote_id, remote_pubkey := v \<rparr>;
                 keys = make_encryption_key P (make_keying_material P remote_id v e1) v;
                 e2 = e1\<lparr> encryption_key := fst keys, nonce := snd keys \<rparr>
             in (None,
                 e2\<lparr> key_confirmation_data :=
                       gen_kcd P (remote_id_numbered e2) (id_numbered e2)
                         (remote_pubkey e2) (pubkey e2) e2,
                     initialized := True \<rparr>))"

text \<open>
  Modelled from the spec: the key confirmation data an engine expects from its peer,
  \<open>kcd(own id, remote id, own key, remote key)\<close>, and \<^verbatim>\<open>ConfirmKey\<close>, whose body is not
  among the sources, which compares what it is given with it.
\<close>

definition kcd_remote :: "primitives \<Rightarrow> SPEKE \<Rightarrow> Bytes" where
  "kcd_remote P e =
     gen_kcd P (id_numbered e) (remote_id_numbered e) (pubkey e) (remote_pubkey e) e"

definition SPEKE_ConfirmKey :: "primitives \<Rightarrow> Bytes \<Rightarrow> SPEKE \<Rightarrow> exn + bool" where
  "SPEKE_ConfirmKey P remote_kcd e =
     (case check_initialized e of
        Some x \<Rightarrow> Inl x
      | None \<Rightarrow> Inr (remote_kcd = kcd_remote P e))"

text \<open>
  Modelled from the spec: \<^verbatim>\<open>GetEncryptionKey\<close>, \<^verbatim>\<open>GetNonce\<close> and
  \<^verbatim>\<open>GetKeyConfirmationData\<close>, whose bodies are not among the sources, return the stored
  values of an initialized engine.
\<close>

definition SPEKE_GetEncryptionKey :: "SPEKE \<Rightarrow> exn + Bytes" where
  "SPEKE_GetEncryptionKey e =
     (case check_initialized e of Some x \<Rightarrow> Inl x | None \<Rightarrow> Inr (encryption_key e))"

definition SPEKE_GetNonce :: "SPEKE \<Rightarrow> exn + Bytes" where
  "SPEKE_GetNonce e =
     (case check_initialized e of Some x \<Rightarrow> Inl x | None \<Rightarrow> Inr (nonce e))"

definition SPEKE_GetKeyConfirmationData :: "SPEKE \<Rightarrow> exn + Bytes" where
  "SPEKE_GetKeyConfirmationData e =
     (case check_initialized e of
        Some x \<Rightarrow> Inl x
      | None \<Rightarrow> Inr (key_confirmation_data e))"

subsection \<open>Sequences of calls\<close>

text \<open>
  Calls of \<^verbatim>\<open>ProvideRemotePublicKeyIdPair\<close> on one engine, one after the other, with the
  outcome of each; and constructions in one process, one after the other, each given by
  its id, password, prime and draw, which leave the counters behind.
\<close>

fun provide_pairs ::
  "primitives \<Rightarrow> (Bytes \<times> string) list \<Rightarrow> SPEKE \<Rightarrow> exn option list \<times> SPEKE" where
  "provide_pairs P [] e = ([], e)"
| "provide_pairs P ((k, i) # calls) e =
     (case SPEKE_ProvideRemotePublicKeyIdPair P k i e of
        (r, e') \<Rightarrow> (case provide_pairs P calls e' of (rs, e'') \<Rightarrow> (r # rs, e'')))"


subsection \<open>Sample primitives\<close>

text \<open>
  Primitives to run the engine on: the hash is the identity, the HMAC puts the key before
  the message, and the HKDF takes the first bytes of the keying material, with zeros after
  them should it be too short.
\<close>

definition sample_primitives :: primitives where
  "sample_primitives =
     \<lparr> Hash = (\<lambda>m. m), Hmac = (\<lambda>key m. key @ m),
       Hkdf = (\<lambda>km n. take n (km @ replicate n 0)),
       KEY_LEN = 2, NONCE_LEN = 1 \<rparr>"

text \<open>
  Two engines of two processes that share the password \<open>[5]\<close> and the prime 23: the
  generator is 2; the draws 2 and 4 give the private keys 3 and 5 and the public keys 8
  and 9.
\<close>

definition sample_alice :: SPEKE where
  "sample_alice =
     \<lparr> safe_prime_p = 23, order_q = 11, gen = 2, privkey = 3, pubkey = 8,
       id_given = ''alice'', id_numbered = ''alice-1'',
       remote_id_numbered = [], remote_pubkey = 0,
       encryption_key = [], nonce = [], key_confirmation_data = [],
       initialized = False \<rparr>"

definition sample_bob :: SPEKE where
  "sample_bob =
     \<lparr> safe_prime_p = 23, order_q = 11, gen = 2, privkey = 5, pubkey = 9,
       id_given = ''bob'', id_numbered = ''bob-1'',
       remote_id_numbered = [], remote_pubkey = 0,
       encryption_key = [], nonce = [], key_confirmation_data = [],
       initialized = False \<rparr>"

text \<open>
  The same two engines after each has accepted the other's public key and numbered id.
  The keying material starts with the bytes of \<open>''alice-1''\<close>, of which the sample HKDF
  gives the first three: 97 and 108 for the key, 105 for the nonce.
\<close>

definition sample_alice_accepted :: SPEKE where
  "sample_alice_accepted =
     sample_alice\<lparr> remote_id_numbered := ''bob-1'', remote_pubkey := 9,
       encryption_key := [97, 108], nonce := [105],
       key_confirmation_data :=
         [97, 108] @ bytes_of_string ''bob-1'' @ bytes_of_string ''alice-1'' @ [9, 8],
       initialized := True \<rparr>"

definition sample_bob_accepted :: SPEKE where
  "sample_bob_accepted =
     sample_bob\<lparr> remote_id_numbered := ''alice-1'', remote_pubkey := 8,
       encryption_key := [97, 108], nonce := [105],
       key_confirmation_data :=
         [97, 108] @ bytes_of_string ''alice-1'' @ bytes_of_string ''bob-1'' @ [8, 9],
       initialized := True \<rparr>"

subsection \<open>A sample configuration\<close>

text \<open>
  A configuration and two sessions to run the functions on. The engine keeps one bit,
  whether it has accepted a remote pair; its signature of a message is the message
  reversed. The parser reads the first byte of a body as the kind of the message (1: init
  data, 2: key confirmation, 3: signed data with a signature of one byte), takes an empty
  body for a message with no part, and fails on any other first byte. \<open>sample_idle\<close> is
  the session as constructed, \<open>sample_running\<close> the session after \<^verbatim>\<open>Run\<close>, with the
  engine's bit and the bad-behavior count as given.
\<close>

definition sample_engine :: "bool SpekeInterface" where
  "sample_engine =
     \<lparr> GetId = (\<lambda>e. ''alice''),
       GetPublicKey = (\<lambda>e. [4]),
       ProvideRemotePublicKeyIdPair =
         (\<lambda>pubkey peer_id e.
            if e then (Some AlreadyInitialized, e)
            else if pubkey = [] then (Some PeerKeyInvalid, e)
            else (None, True)),
       GetKeyConfirmationData = (\<lambda>e. (if e then Inr [6] else Inl NotInitialized, e)),
       ConfirmKey = (\<lambda>kcd e. (if e then Inr (kcd = [9]) else Inl NotInitialized, e)),
       HmacSign = (\<lambda>message e. (if e then Inr (rev message) else Inl NotInitialized, e)),
       ConfirmHmacSignature =
         (\<lambda>hmac message e. (if e then Inr (hmac = rev message) else Inl NotInitialized, e)) \<rparr>"

definition empty_message :: SpekeMessage where
  "empty_message = \<lparr> signed_data = None, init_data = None, key_confirmation = None \<rparr>"

definition sample_parse :: "Bytes \<Rightarrow> bool \<times> SpekeMessage" where
  "sample_parse body =
     (case body of
        [] \<Rightarrow> (True, empty_message)
      | tag # rest \<Rightarrow>
          if tag = 1 then (True, empty_message\<lparr> init_data := Some (''bob'', rest) \<rparr>)
          else if tag = 2 then (True, empty_message\<lparr> key_confirmation := Some rest \<rparr>)
          else if tag = 3
            then (True, empty_message\<lparr> signed_data := Some (take 1 rest, drop 1 rest) \<rparr>)
          else (False, empty_message))"

definition sample_config :: "bool config" where
  "sample_config =
     \<lparr> speke_iface = sample_engine, ParseFromArray = sample_parse, BAD_BEHAVIOR_LIMIT = 3,
       handler_body = (\<lambda>h payload. [CallSendMessage payload None]) \<rparr>"

definition sample_idle :: "bool SpekeSession" where
  "sample_idle =
     \<lparr> socket_is_open = True, speke = Some False, state = IDLE, closed = False,
       bad_behavior_count = 0, message_handler = None,
       written = [], reads_started = 0, delivered = [] \<rparr>"

definition sample_running :: "bool \<Rightarrow> nat \<Rightarrow> bool SpekeSession" where
  "sample_running accepted bad =
     \<lparr> socket_is_open = True, speke = Some accepted, state = RUNNING, closed = False,
       bad_behavior_count = bad, message_handler = Some 0,
       written = [empty_message\<lparr> init_data := Some (''alice'', [4]) \<rparr>],
       reads_started = 1, delivered = [] \<rparr>"


section \<open>Properties of the session\<close>

subsection \<open>The sample configuration\<close>

lemma sample_idle_new: "SpekeSession_new True (Some False) = Inr sample_idle"
  by (simp add: SpekeSession_new_def sample_idle_def)

lemma sample_running_Run: "Run sample_config 0 None sample_idle = (None, sample_running False 0)"
  by (simp add: Run_def sample_idle_def sample_running_def sample_config_def sample_engine_def
      SetMessageHandler_def start_reading_def send_message_def SendMessage_socket_def
      empty_message_def)

lemmas sample_defs =
  sample_config_def sample_engine_def sample_parse_def sample_running_def sample_idle_def
  empty_message_def

lemmas error_code_defs = eof_def bad_descriptor_def broken_pipe_def

subsection \<open>Close and the latch\<close>

lemma Close_closed: "closed s \<Longrightarrow> Close st s = s"
  by (simp add: Close_def)

lemma latched_Close: "\<not> closed s \<Longrightarrow> is_stopped st \<Longrightarrow> latched (Close st s)"
  by (simp add: latched_def Close_def)

lemma latched_not_IDLE: "latched s \<Longrightarrow> state s \<noteq> IDLE \<and> state s \<noteq> RUNNING"
  by (cases "state s") (auto simp: latched_def)

lemma latched_api:
  "latched s \<Longrightarrow> \<exists>h. snd (api cfg c s) = s\<lparr> message_handler := h \<rparr>"
proof (cases c)
  case (CallRun h wr)
  assume "latched s"
  then have "snd (api cfg c s) = s\<lparr> message_handler := message_handler s \<rparr>"
    using CallRun latched_not_IDLE [of s] by (simp add: Run_def)
  then show ?thesis ..
next
  case (CallClose st)
  assume "latched s"
  then have "snd (api cfg c s) = s\<lparr> message_handler := message_handler s \<rparr>"
    using CallClose by (simp add: Close_def latched_def)
  then show ?thesis ..
next
  case (CallSetMessageHandler h)
  then have "snd (api cfg c s) = s\<lparr> message_handler := Some h \<rparr>"
    by (simp add: SetMessageHandler_def)
  then show ?thesis ..
next
  case (CallSendMessage m wr)
  assume "latched s"
  then have "snd (api cfg c s) = s\<lparr> message_handler := message_handler s \<rparr>"
    using CallSendMessage latched_not_IDLE [of s] by (auto simp: SendMessage_def)
  then show ?thesis ..
qed

lemma latched_handle_read:
  "latched s \<Longrightarrow> snd (handle_read cfg ec rd wr s) = s"
  by (auto simp: handle_read_def receive_message_def ReceiveMessage_def Close_def latched_def
      split: option.splits)

lemma latched_step:
  "latched s \<Longrightarrow> \<exists>h. snd (step cfg ev s) = s\<lparr> message_handler := h \<rparr>"
proof (cases ev)
  case (Call c)
  assume "latched s"
  then show ?thesis using Call latched_api [of s cfg c] by simp
next
  case (ReadReady ec rd wr)
  assume "latched s"
  then have "snd (step cfg ev s) = s\<lparr> message_handler := message_handler s \<rparr>"
    using ReadReady by (simp add: latched_handle_read)
  then show ?thesis ..
qed

lemma latched_upd: "latched (s\<lparr> message_handler := h \<rparr>) = latched s"
  by (simp add: latched_def)

lemma latched_exec:
  "latched s \<Longrightarrow> \<exists>h. exec cfg evs s = s\<lparr> message_handler := h \<rparr>"
proof (induction evs arbitrary: s)
  case Nil
  have "exec cfg [] s = s\<lparr> message_handler := message_handler s \<rparr>"
    by (simp add: exec_def)
  then show ?case ..
next
  case (Cons ev evs)
  from Cons.prems obtain h1 where 1: "snd (step cfg ev s) = s\<lparr> message_handler := h1 \<rparr>"
    using latched_step by blast
  have "latched (s\<lparr> message_handler := h1 \<rparr>)"
    using Cons.prems by (simp add: latched_upd)
  then obtain h2 where
    2: "exec cfg evs (s\<lparr> message_handler := h1 \<rparr>) = s\<lparr> message_handler := h1, message_handler := h2 \<rparr>"
    using Cons.IH by blast
  have "exec cfg (ev # evs) s = exec cfg evs (snd (step cfg ev s))"
    by (simp add: exec_def)
  then have "exec cfg (ev # evs) s = s\<lparr> message_handler := h2 \<rparr>"
    using 1 2 by simp
  then show ?case ..
qed

lemma exec_after_Close:
  assumes "\<not> closed s" and "is_stopped r"
  shows "\<exists>h. exec cfg evs (Close r s) = (Close r s)\<lparr> message_handler := h \<rparr>"
  using latched_exec [OF latched_Close [OF assms]] .

lemma state_after_Close:
  assumes "\<not> closed s" and "is_stopped r"
  shows "state (exec cfg evs (Close r s)) = r"
proof -
  obtain h where "exec cfg evs (Close r s) = (Close r s)\<lparr> message_handler := h \<rparr>"
    using exec_after_Close [OF assms] by blast
  then show ?thesis using assms(1) by (simp add: Close_def)
qed

lemma exec_Cons: "exec cfg (ev # evs) s = exec cfg evs (snd (step cfg ev s))"
  by (simp add: exec_def)

text \<open>
  A first close that the caller makes, or that \<^verbatim>\<open>handle_read\<close> makes. Take a session
  that has not been closed and close it with a terminal state \<open>r\<close>. The first call
  releases the engine and the socket. Whatever happens afterwards (further calls of
  \<^verbatim>\<open>Close\<close> with any state, reads that fail or succeed, calls of \<^verbatim>\<open>Run\<close>,
  \<^verbatim>\<open>SendMessage\<close> or \<^verbatim>\<open>SetMessageHandler\<close>), the state stays \<open>r\<close> and the session
  differs from the one the first call left in nothing but, possibly, the handler. In
  particular a sequence of \<^verbatim>\<open>Close\<close> calls equals its first call. The same holds when
  the first call is made by \<^verbatim>\<open>handle_read\<close> itself: after a wait that fails the state is
  and stays \<open>STOPPED_ERROR\<close>, and after a read that meets the end of the stream it is and
  stays \<open>STOPPED_PEER_DISCONNECTED\<close>.
\<close>

theorem first_Close_latches:
  assumes "\<not> closed s" and "is_stopped r"
  shows "state (exec cfg evs (Close r s)) = r \<and>
         speke (Close r s) = None \<and> \<not> socket_is_open (Close r s) \<and>
         (\<exists>h. exec cfg evs (Close r s) = (Close r s)\<lparr> message_handler := h \<rparr>) \<and>
         foldl (\<lambda>s r. Close r s) s (r # rs) = Close r s \<and>
         state (exec cfg (ReadReady (Some code) rd wr # evs) s) = STOPPED_ERROR \<and>
         (socket_is_open s \<longrightarrow>
            state (exec cfg (ReadReady None (Inl (system_error eof)) wr # evs) s)
              = STOPPED_PEER_DISCONNECTED)"
proof -
  have c: "closed (Close r s)" using assms(1) by (simp add: Close_def)
  have f: "foldl (\<lambda>s r. Close r s) t rs = t" if "closed t" for t :: "'a SpekeSession"
    using that by (induction rs) (simp_all add: Close_closed)
  have 1: "state (exec cfg evs (Close r s)) = r"
    using assms by (rule state_after_Close)
  have 2: "speke (Close r s) = None \<and> \<not> socket_is_open (Close r s)"
    using assms(1) by (simp add: Close_def)
  have 3: "\<exists>h. exec cfg evs (Close r s) = (Close r s)\<lparr> message_handler := h \<rparr>"
    using assms by (rule exec_after_Close)
  have 4: "foldl (\<lambda>s r. Close r s) s (r # rs) = Close r s"
    using f [OF c] by simp
  have "snd (step cfg (ReadReady (Some code) rd wr) s) = Close STOPPED_ERROR s"
    by (simp add: handle_read_def)
  then have 5: "state (exec cfg (ReadReady (Some code) rd wr # evs) s) = STOPPED_ERROR"
    using state_after_Close [OF assms(1), of STOPPED_ERROR cfg evs] by (simp add: exec_Cons)
  have 6: "state (exec cfg (ReadReady None (Inl (system_error eof)) wr # evs) s)
             = STOPPED_PEER_DISCONNECTED"
    if "socket_is_open s"
  proof -
    have "snd (step cfg (ReadReady None (Inl (system_error eof)) wr) s)
            = Close STOPPED_PEER_DISCONNECTED s"
      using that assms(1)
      by (simp add: handle_read_def receive_message_def ReceiveMessage_def Close_def)
    then show ?thesis
      using state_after_Close [OF assms(1), of STOPPED_PEER_DISCONNECTED cfg evs]
      by (simp add: exec_Cons)
  qed
  show ?thesis using 1 2 3 4 5 6 by blast
qed

theorem first_Close_latches_witness:
  "\<not> closed (sample_running True 0) \<and> is_stopped STOPPED_KEY_CONFIRMATION_FAILED \<and>
   state (exec sample_config
            [Call (CallClose STOPPED), ReadReady None (Inl (system_error eof)) None,
             ReadReady (Some bad_descriptor) (Inl (system_error eof)) None,
             Call (CallRun 1 None), Call (CallSendMessage [1] (Some broken_pipe)),
             Call (CallClose STOPPED_ERROR)]
            (Close STOPPED_KEY_CONFIRMATION_FAILED (sample_running True 0)))
     = STOPPED_KEY_CONFIRMATION_FAILED \<and>
   foldl (\<lambda>s r. Close r s) (sample_running True 0)
     [STOPPED_KEY_CONFIRMATION_FAILED, STOPPED, STOPPED_PEER_DISCONNECTED] =
     Close STOPPED_KEY_CONFIRMATION_FAILED (sample_running True 0) \<and>
   state (exec sample_config
            [ReadReady None (Inl (system_error eof)) None, Call (CallClose STOPPED),
             ReadReady None (Inl (system_error eof)) None]
            (sample_running True 0))
     = STOPPED_PEER_DISCONNECTED"
  using
    first_Close_latches [of "sample_running True 0" STOPPED_KEY_CONFIRMATION_FAILED
      sample_config
      "[Call (CallClose STOPPED), ReadReady None (Inl (system_error eof)) None,
        ReadReady (Some bad_descriptor) (Inl (system_error eof)) None,
        Call (CallRun 1 None), Call (CallSendMessage [1] (Some broken_pipe)),
        Call (CallClose STOPPED_ERROR)]"
      "[STOPPED, STOPPED_PEER_DISCONNECTED]"]
    first_Close_latches [of "sample_running True 0" STOPPED sample_config
      "[Call (CallClose STOPPED), ReadReady None (Inl (system_error eof)) None]" "[]"
      _ _ None]
  by (simp add: sample_running_def)

subsection \<open>Run and a send that fails\<close>

text \<open>
  \<^verbatim>\<open>Run\<close> on an open session in state \<open>IDLE\<close>, with a transport that refuses the
  InitData frame with any error code: the call returns normally, the session is closed,
  and its state is \<open>RUNNING\<close>.
\<close>

theorem Run_after_failed_send:
  assumes "state s = IDLE" and "\<not> closed s" and "socket_is_open s" and "speke s = Some e"
  shows "fst (Run cfg handler (Some code) s) = None \<and>
         state (snd (Run cfg handler (Some code) s)) = RUNNING \<and>
         closed (snd (Run cfg handler (Some code) s))"
  using assms
  by (auto simp: Run_def send_message_def SendMessage_socket_def Close_def
      start_reading_def SetMessageHandler_def Let_def)

theorem Run_after_failed_send_witness:
  "state sample_idle = IDLE \<and>
   fst (Run sample_config 0 (Some 104) sample_idle) = None \<and>
   state (snd (Run sample_config 0 (Some 104) sample_idle)) = RUNNING \<and>
   closed (snd (Run sample_config 0 (Some 104) sample_idle))"
  using Run_after_failed_send [of sample_idle False sample_config 0 104]
  by (simp add: sample_idle_def)

text \<open>
  The close calls that follow such a \<^verbatim>\<open>Run\<close> find the latch set and change nothing:
  the state is \<open>RUNNING\<close> after any number of them.
\<close>

lemma Closes_after_failed_send:
  assumes "state s = IDLE" and "\<not> closed s" and "socket_is_open s" and "speke s = Some e"
  shows "state (foldl (\<lambda>s r. Close r s) (snd (Run cfg handler (Some code) s)) rs) = RUNNING"
proof -
  have f: "foldl (\<lambda>s r. Close r s) t rs = t" if "closed t" for t :: "'a SpekeSession"
    using that by (induction rs) (simp_all add: Close_closed)
  show ?thesis
    using Run_after_failed_send [OF assms, of cfg handler code]
    by (simp add: f)
qed

text \<open>
  C7. Idempotent close. \<^verbatim>\<open>Run\<close> on the session as constructed, with a transport that
  answers the InitData frame with a broken pipe. The first close call of the session is
  the one \<^verbatim>\<open>send_message\<close> makes, with \<open>STOPPED_PEER_DISCONNECTED\<close>; it sets the state
  and releases the engine and the socket. \<^verbatim>\<open>Run\<close> then assigns \<open>RUNNING\<close>, and the two
  close calls that follow change nothing: after all three the state is \<open>RUNNING\<close>, not
  the value of the first.
\<close>

theorem Close_after_failed_send_in_Run:
  "send_message (Some broken_pipe)
     (empty_message\<lparr> init_data := Some (''alice'', [4]) \<rparr>)
     (start_reading (SetMessageHandler 0 sample_idle))
     = (None,
        Close STOPPED_PEER_DISCONNECTED
          ((start_reading (SetMessageHandler 0 sample_idle))
             \<lparr> written := [empty_message\<lparr> init_data := Some (''alice'', [4]) \<rparr>] \<rparr>)) \<and>
   state (Close STOPPED_PEER_DISCONNECTED
            ((start_reading (SetMessageHandler 0 sample_idle))
               \<lparr> written := [empty_message\<lparr> init_data := Some (''alice'', [4]) \<rparr>] \<rparr>))
     = STOPPED_PEER_DISCONNECTED \<and>
   state (foldl (\<lambda>s r. Close r s)
            (snd (Run sample_config 0 (Some broken_pipe) sample_idle))
            [STOPPED, STOPPED_ERROR])
     = RUNNING"
  by (simp add: sample_defs error_code_defs Run_def send_message_def SendMessage_socket_def
      Close_def start_reading_def SetMessageHandler_def)

text \<open>
  C3. Terminal states. \<^verbatim>\<open>Run\<close> on the session as constructed, with a transport that
  answers the InitData frame with a broken pipe: \<^verbatim>\<open>send_message\<close> catches the error and
  closes the session, whose state is then \<open>STOPPED_PEER_DISCONNECTED\<close>; \<^verbatim>\<open>Run\<close>
  returns normally and leaves the state \<open>RUNNING\<close>, with the latch set and the engine
  released.
\<close>

theorem Run_overwrites_terminal_state:
  "state (snd (send_message (Some broken_pipe)
                 (empty_message\<lparr> init_data := Some (''alice'', [4]) \<rparr>)
                 (start_reading (SetMessageHandler 0 sample_idle))))
     = STOPPED_PEER_DISCONNECTED \<and>
   fst (Run sample_config 0 (Some broken_pipe) sample_idle) = None \<and>
   state (snd (Run sample_config 0 (Some broken_pipe) sample_idle)) = RUNNING \<and>
   closed (snd (Run sample_config 0 (Some broken_pipe) sample_idle)) \<and>
   speke (snd (Run sample_config 0 (Some broken_pipe) sample_idle)) = None"
  by (simp add: sample_defs error_code_defs Run_def send_message_def SendMessage_socket_def
      Close_def start_reading_def SetMessageHandler_def)

subsection \<open>Receiving a frame\<close>

lemma receive_message_body:
  "socket_is_open s \<Longrightarrow>
   receive_message cfg (Inr body) s = (Inr (Some (snd (ParseFromArray cfg body))), s)"
  by (simp add: receive_message_def ReceiveMessage_def)

text \<open>
  A read that fails: \<^verbatim>\<open>receive_message\<close> closes the session, with
  \<open>STOPPED_PEER_DISCONNECTED\<close> for end of stream, a bad descriptor or a broken pipe and
  with \<open>STOPPED_ERROR\<close> for any other error code; \<^verbatim>\<open>handle_read\<close> returns without
  starting another read.
\<close>

theorem receive_errors_classified:
  assumes "socket_is_open s" and "\<not> closed s"
    and "r = handle_read cfg None (Inl (system_error code)) wr s"
  shows "fst r = None \<and> closed (snd r) \<and> reads_started (snd r) = reads_started s \<and>
         state (snd r) =
           (if code = eof \<or> code = bad_descriptor \<or> code = broken_pipe
            then STOPPED_PEER_DISCONNECTED else STOPPED_ERROR)"
  using assms
  by (simp add: handle_read_def receive_message_def ReceiveMessage_def Close_def)

theorem receive_errors_classified_witness:
  "state (snd (handle_read sample_config None (Inl (system_error eof)) None
                 (sample_running True 0)))
     = STOPPED_PEER_DISCONNECTED \<and>
   state (snd (handle_read sample_config None (Inl (system_error 104)) None
                 (sample_running True 0)))
     = STOPPED_ERROR"
  using
    receive_errors_classified [of "sample_running True 0"
      "handle_read sample_config None (Inl (system_error eof)) None (sample_running True 0)"
      sample_config eof None]
    receive_errors_classified [of "sample_running True 0"
      "handle_read sample_config None (Inl (system_error 104)) None (sample_running True 0)"
      sample_config 104 None]
  by (simp add: sample_running_def error_code_defs)

text \<open>
  A frame whose length is more than the vector for its body can hold: the exception of the
  vector is no \<^verbatim>\<open>asio::system_error\<close>, so \<^verbatim>\<open>receive_message\<close> does not catch it and it
  leaves \<^verbatim>\<open>handle_read\<close>, with the session as it was.
\<close>

lemma handle_read_length_error:
  "socket_is_open s \<Longrightarrow> handle_read cfg None (Inl length_error) wr s = (Some length_error, s)"
  by (simp add: handle_read_def receive_message_def ReceiveMessage_def)

text \<open>
  C4. Classification of receive errors. A body the parser rejects: \<^verbatim>\<open>ReceiveMessage\<close>
  drops the parser's flag, so \<^verbatim>\<open>handle_read\<close> treats what the parser left (here a
  message with no part) as a received message, starts the next read, and the state stays
  \<open>RUNNING\<close>.
\<close>

theorem parse_failure_not_detected:
  "ParseFromArray sample_config [255] = (False, empty_message) \<and>
   handle_read sample_config None (Inr [255]) None (sample_running True 0) =
     (None, (sample_running True 0)\<lparr> reads_started := 2 \<rparr>) \<and>
   state (sample_running True 0) = RUNNING"
  by (simp add: sample_defs handle_read_def receive_message_def ReceiveMessage_def
      start_reading_def)

text \<open>
  C10. A message with none of its three parts. \<^verbatim>\<open>handle_read\<close> returns normally and
  the session is as before, but for one more read started: the state, the bad-behavior
  count, the engine and the handler are unchanged, nothing is written and nothing is
  delivered.
\<close>

theorem empty_envelope_ignored:
  assumes "socket_is_open s"
    and "snd (ParseFromArray cfg body) = m"
    and "signed_data m = None" and "init_data m = None" and "key_confirmation m = None"
  shows "handle_read cfg None (Inr body) wr s =
           (None, s\<lparr> reads_started := Suc (reads_started s) \<rparr>)"
  using assms by (simp add: handle_read_def receive_message_body start_reading_def)

theorem empty_envelope_ignored_witness:
  "socket_is_open (sample_running False 0) \<and>
   handle_read sample_config None (Inr []) None (sample_running False 0) =
     (None, (sample_running False 0)\<lparr> reads_started := 2 \<rparr>)"
  using empty_envelope_ignored [of "sample_running False 0" sample_config "[]" empty_message None]
  by (simp add: sample_defs)

subsection \<open>Signed data\<close>

lemma api_keeps:
  "bad_behavior_count (snd (api cfg c s)) = bad_behavior_count s \<and>
   delivered (snd (api cfg c s)) = delivered s"
  by (cases c)
     (auto simp: Run_def SendMessage_def send_message_def SendMessage_socket_def Close_def
        SetMessageHandler_def start_reading_def Let_def
        split: option.splits prod.splits sum.splits exn.splits)

lemma run_calls_keeps:
  "bad_behavior_count (snd (run_calls cfg cs s)) = bad_behavior_count s \<and>
   delivered (snd (run_calls cfg cs s)) = delivered s"
proof (induction cs arbitrary: s)
  case Nil
  show ?case by simp
next
  case (Cons c cs)
  obtain x s' where a: "api cfg c s = (x, s')" by (cases "api cfg c s")
  have k: "bad_behavior_count s' = bad_behavior_count s \<and> delivered s' = delivered s"
    using api_keeps [of cfg c s] a by simp
  show ?case
  proof (cases x)
    case None
    then show ?thesis using a k Cons.IH [of s'] by simp
  next
    case (Some y)
    then show ?thesis using a k by simp
  qed
qed

lemma handle_message_keeps:
  "message_handler s = Some h \<Longrightarrow>
   bad_behavior_count (snd (handle_message cfg payload s)) = bad_behavior_count s \<and>
   delivered (snd (handle_message cfg payload s)) = delivered s @ [(h, payload)]"
  by (simp add: handle_message_def run_calls_keeps)

lemma Close_count: "bad_behavior_count (Close st s) = bad_behavior_count s"
  by (simp add: Close_def)

lemma send_message_count:
  "bad_behavior_count (snd (send_message wr m s)) = bad_behavior_count s"
  by (cases wr)
     (auto simp: send_message_def SendMessage_socket_def Close_def)

lemma send_key_confirmation_count:
  "bad_behavior_count (snd (send_key_confirmation cfg wr s)) = bad_behavior_count s"
  by (auto simp: send_key_confirmation_def send_message_count
      split: option.splits prod.splits sum.splits)

lemma handle_read_catch_count:
  "bad_behavior_count (snd (handle_read_catch x s)) = bad_behavior_count s"
  by (simp add: handle_read_catch_def start_reading_def Close_def)

lemma receive_message_count:
  "bad_behavior_count (snd (receive_message cfg rd s)) = bad_behavior_count s"
  by (auto simp: receive_message_def Close_def
      split: sum.splits exn.splits)

lemma increase_bad_behavior_count_mono:
  "bad_behavior_count s \<le> bad_behavior_count (increase_bad_behavior_count cfg s)"
  by (simp add: increase_bad_behavior_count_def Let_def Close_def)

lemma handle_message_count:
  "bad_behavior_count (snd (handle_message cfg payload s)) = bad_behavior_count s"
  by (simp add: handle_message_def run_calls_keeps split: option.splits)

lemma handle_message_countD:
  "handle_message cfg payload s = (x, s') \<Longrightarrow> bad_behavior_count s' = bad_behavior_count s"
  using handle_message_count [of cfg payload s] by simp

lemma send_key_confirmation_countD:
  "send_key_confirmation cfg wr s = (x, s') \<Longrightarrow>
   bad_behavior_count s' = bad_behavior_count s"
  using send_key_confirmation_count [of cfg wr s] by simp

lemma handle_read_count_mono:
  "bad_behavior_count s \<le> bad_behavior_count (snd (handle_read cfg ec rd wr s))"
proof (cases ec)
  case (Some c)
  then show ?thesis by (simp add: handle_read_def Close_def)
next
  case None
  obtain r s1 where rm: "receive_message cfg rd s = (r, s1)"
    by (cases "receive_message cfg rd s")
  have c1: "bad_behavior_count s1 = bad_behavior_count s"
    using receive_message_count [of cfg rd s] rm by simp
  have i: "bad_behavior_count s \<le>
           bad_behavior_count (increase_bad_behavior_count cfg (s1\<lparr> speke := e \<rparr>))" for e
    using increase_bad_behavior_count_mono [of "s1\<lparr> speke := e \<rparr>" cfg] c1 by simp
  show ?thesis
    using None rm c1 i
    by (auto simp: handle_read_def Close_count start_reading_def handle_read_catch_count
        split: option.splits prod.splits sum.splits bool.splits
        dest!: handle_message_countD send_key_confirmation_countD)
qed

lemma step_count_mono:
  "bad_behavior_count s \<le> bad_behavior_count (snd (step cfg ev s))"
  by (cases ev) (simp_all add: handle_read_count_mono api_keeps del: api.simps)

lemma exec_count_mono:
  "bad_behavior_count s \<le> bad_behavior_count (exec cfg evs s)"
proof (induction evs arbitrary: s)
  case Nil
  show ?case by (simp add: exec_def)
next
  case (Cons ev evs)
  have "bad_behavior_count s \<le> bad_behavior_count (snd (step cfg ev s))"
    by (rule step_count_mono)
  also have "\<dots> \<le> bad_behavior_count (exec cfg evs (snd (step cfg ev s)))"
    by (rule Cons.IH)
  finally show ?case by (simp add: exec_def)
qed

text \<open>
  C5. A SignedData frame whose signature the engine checks without an error. If the
  signature is valid, the handler is invoked once with the payload (one entry more in
  \<open>delivered\<close>) and the bad-behavior count is as before, whatever the handler does with
  the session. If it is not, nothing is delivered and the count goes up by one; when the
  new count has reached \<^verbatim>\<open>BAD_BEHAVIOR_LIMIT\<close> the session is closed with
  \<open>STOPPED_PEER_BAD_BEHAVIOR\<close>, and otherwise its state stays. Nothing that happens
  afterwards, valid frames included, brings the count below what it is then.
\<close>

theorem signed_data_frame:
  assumes "socket_is_open s" and "\<not> closed s" and "speke s = Some e"
    and "message_handler s = Some h"
    and "snd (ParseFromArray cfg body) = m"
    and "signed_data m = Some (sig, payload)"
    and "ConfirmHmacSignature (speke_iface cfg) sig payload e = (Inr valid, e')"
    and "s' = snd (handle_read cfg None (Inr body) wr s)"
  shows "(if valid
          then delivered s' = delivered s @ [(h, payload)] \<and>
               bad_behavior_count s' = bad_behavior_count s
          else delivered s' = delivered s \<and>
               bad_behavior_count s' = Suc (bad_behavior_count s) \<and>
               (if BAD_BEHAVIOR_LIMIT cfg \<le> Suc (bad_behavior_count s)
                then state s' = STOPPED_PEER_BAD_BEHAVIOR \<and> closed s'
                else state s' = state s \<and> \<not> closed s')) \<and>
         bad_behavior_count s' \<le> bad_behavior_count (exec cfg evs s')"
    (is "?frame \<and> ?later")
proof
  show ?later
    by (rule exec_count_mono)
  show ?frame
  proof (cases valid)
    case True
    let ?s1 = "s\<lparr> speke := Some e' \<rparr>"
    have h: "message_handler ?s1 = Some h" using assms(4) by simp
    obtain x s2 where hm: "handle_message cfg payload ?s1 = (x, s2)"
      by (cases "handle_message cfg payload ?s1")
    have k: "bad_behavior_count s2 = bad_behavior_count s \<and>
             delivered s2 = delivered s @ [(h, payload)]"
      using handle_message_keeps [OF h, of cfg payload] hm by simp
    have "s' = s2 \<or> s' = start_reading s2"
      using assms True hm
      by (cases x) (simp_all add: handle_read_def receive_message_body)
    then show ?thesis using True k by (auto simp: start_reading_def)
  next
    case False
    then have "s' = start_reading (increase_bad_behavior_count cfg (s\<lparr> speke := Some e' \<rparr>))"
      using assms by (simp add: handle_read_def receive_message_body)
    then show ?thesis
      using False assms(2)
      by (simp add: start_reading_def increase_bad_behavior_count_def Close_def Let_def)
  qed
qed

theorem signed_data_frame_witness:
  "delivered (snd (handle_read sample_config None (Inr [3, 7, 7]) None (sample_running True 1)))
     = [(0, [7])] \<and>
   bad_behavior_count
     (snd (handle_read sample_config None (Inr [3, 7, 7]) None (sample_running True 1))) = 1 \<and>
   bad_behavior_count
     (snd (handle_read sample_config None (Inr [3, 8, 7]) None (sample_running True 1))) = 2 \<and>
   state (snd (handle_read sample_config None (Inr [3, 8, 7]) None (sample_running True 1)))
     = RUNNING \<and>
   bad_behavior_count
     (snd (handle_read sample_config None (Inr [3, 8, 7]) None (sample_running True 2))) = 3 \<and>
   state (snd (handle_read sample_config None (Inr [3, 8, 7]) None (sample_running True 2)))
     = STOPPED_PEER_BAD_BEHAVIOR"
  using
    signed_data_frame [of "sample_running True 1" True 0 sample_config "[3, 7, 7]"
      "snd (sample_parse [3, 7, 7])" "[7]" "[7]" True True
      "snd (handle_read sample_config None (Inr [3, 7, 7]) None (sample_running True 1))" None]
    signed_data_frame [of "sample_running True 1" True 0 sample_config "[3, 8, 7]"
      "snd (sample_parse [3, 8, 7])" "[8]" "[7]" False True
      "snd (handle_read sample_config None (Inr [3, 8, 7]) None (sample_running True 1))" None]
    signed_data_frame [of "sample_running True 2" True 0 sample_config "[3, 8, 7]"
      "snd (sample_parse [3, 8, 7])" "[8]" "[7]" False True
      "snd (handle_read sample_config None (Inr [3, 8, 7]) None (sample_running True 2))" None]
  by (simp add: sample_defs)

subsection \<open>Init data\<close>

lemma send_message_written:
  "socket_is_open s \<Longrightarrow> written (snd (send_message wr m s)) = written s @ [m]"
  by (cases wr)
     (auto simp: send_message_def SendMessage_socket_def Close_def)

lemma send_message_no_exn:
  "socket_is_open s \<Longrightarrow> fst (send_message wr m s) = None"
  by (cases wr)
     (auto simp: send_message_def SendMessage_socket_def Close_def)

text \<open>
  C6. An InitData frame. When the engine answers \<open>AlreadyInitialized\<close> the frame is
  dropped: the session is as before but for the engine as the call left it and one more
  read started, so the bad-behavior count and the state are unchanged and nothing is
  written. When it answers \<open>PeerKeyInvalid\<close> the session is closed with
  \<open>STOPPED_PEER_PUBLIC_KEY_OR_ID_INVALID\<close>, nothing is written and no read is started.
  When it accepts the pair, the session passes a KeyConfirmation frame with the engine's
  key confirmation data to the socket.
\<close>

theorem init_data_frame:
  assumes "socket_is_open s" and "\<not> closed s" and "speke s = Some e"
    and "snd (ParseFromArray cfg body) = m"
    and "signed_data m = None" and "init_data m = Some (peer_id, public_key)"
    and "r = handle_read cfg None (Inr body) wr s"
  shows
    "(ProvideRemotePublicKeyIdPair (speke_iface cfg) public_key peer_id e
        = (Some AlreadyInitialized, e') \<longrightarrow>
      r = (None, s\<lparr> speke := Some e', reads_started := Suc (reads_started s) \<rparr>)) \<and>
     (ProvideRemotePublicKeyIdPair (speke_iface cfg) public_key peer_id e
        = (Some PeerKeyInvalid, e') \<longrightarrow>
      fst r = None \<and> state (snd r) = STOPPED_PEER_PUBLIC_KEY_OR_ID_INVALID \<and>
      closed (snd r) \<and> written (snd r) = written s \<and>
      reads_started (snd r) = reads_started s) \<and>
     (ProvideRemotePublicKeyIdPair (speke_iface cfg) public_key peer_id e = (None, e') \<and>
      GetKeyConfirmationData (speke_iface cfg) e' = (Inr kcd, e'') \<longrightarrow>
      fst r = None \<and>
      written (snd r) =
        written s @ [\<lparr> signed_data = None, init_data = None, key_confirmation = Some kcd \<rparr>])"
    (is "(?P1 \<longrightarrow> ?Q1) \<and> (?P2 \<longrightarrow> ?Q2) \<and> (?P3 \<longrightarrow> ?Q3)")
proof -
  have 1: "?P1 \<longrightarrow> ?Q1"
  proof
    assume ?P1
    then show ?Q1
      using assms
      by (simp add: handle_read_def receive_message_body handle_read_catch_def
          start_reading_def)
  qed
  have 2: "?P2 \<longrightarrow> ?Q2"
  proof
    assume p: ?P2
    have "r = (None, Close STOPPED_PEER_PUBLIC_KEY_OR_ID_INVALID (s\<lparr> speke := Some e' \<rparr>))"
      using assms p by (simp add: handle_read_def receive_message_body handle_read_catch_def)
    then show ?Q2
      using assms(2) by (simp add: Close_def)
  qed
  have 3: "?P3 \<longrightarrow> ?Q3"
  proof
    assume p: ?P3
    let ?s1 = "s\<lparr> speke := Some e'' \<rparr>"
    let ?m = "\<lparr> signed_data = None, init_data = None, key_confirmation = Some kcd \<rparr>"
    have o: "socket_is_open ?s1" using assms(1) by simp
    have skc: "send_key_confirmation cfg wr (s\<lparr> speke := Some e' \<rparr>) = send_message wr ?m ?s1"
      using p by (simp add: send_key_confirmation_def)
    obtain s2 where sm: "send_message wr ?m ?s1 = (None, s2)"
      using send_message_no_exn [OF o, of wr ?m] by (cases "send_message wr ?m ?s1") simp
    have w: "written s2 = written s @ [?m]"
      using send_message_written [OF o, of wr ?m] sm by simp
    have "r = (None, start_reading s2)"
      using assms p skc sm by (simp add: handle_read_def receive_message_body)
    then show ?Q3
      using w by (simp add: start_reading_def)
  qed
  show ?thesis
    by (intro conjI) (rule 1, rule 2, rule 3)
qed

theorem init_data_frame_witness:
  "handle_read sample_config None (Inr [1, 5]) None (sample_running True 0) =
     (None, (sample_running True 0)\<lparr> reads_started := 2 \<rparr>) \<and>
   state (snd (handle_read sample_config None (Inr [1]) None (sample_running False 0))) =
     STOPPED_PEER_PUBLIC_KEY_OR_ID_INVALID \<and>
   written (snd (handle_read sample_config None (Inr [1, 5]) None (sample_running False 0))) =
     written (sample_running False 0) @ [empty_message\<lparr> key_confirmation := Some [6] \<rparr>]"
  using
    init_data_frame [of "sample_running True 0" True sample_config "[1, 5]"
      "snd (sample_parse [1, 5])" "''bob''" "[5]"
      "handle_read sample_config None (Inr [1, 5]) None (sample_running True 0)" None True]
    init_data_frame [of "sample_running False 0" False sample_config "[1]"
      "snd (sample_parse [1])" "''bob''" "[]"
      "handle_read sample_config None (Inr [1]) None (sample_running False 0)" None False]
    init_data_frame [of "sample_running False 0" False sample_config "[1, 5]"
      "snd (sample_parse [1, 5])" "''bob''" "[5]"
      "handle_read sample_config None (Inr [1, 5]) None (sample_running False 0)" None
      True "[6]" True]
  by (simp add: sample_defs)

subsection \<open>Errors of the engine in the other two branches\<close>

text \<open>
  A KeyConfirmation frame on which the engine's \<^verbatim>\<open>ConfirmKey\<close> throws: the exception
  leaves \<^verbatim>\<open>handle_read\<close>, and the session is as before but for the engine.
\<close>

theorem handle_read_ConfirmKey_throws:
  assumes "socket_is_open s" and "speke s = Some e"
    and "snd (ParseFromArray cfg body) = m"
    and "signed_data m = None" and "init_data m = None" and "key_confirmation m = Some kcd"
    and "ConfirmKey (speke_iface cfg) kcd e = (Inl x, e')"
  shows "handle_read cfg None (Inr body) wr s = (Some x, s\<lparr> speke := Some e' \<rparr>)"
  using assms by (simp add: handle_read_def receive_message_body)

theorem handle_read_ConfirmKey_throws_witness:
  "handle_read sample_config None (Inr [2, 9]) None (sample_running False 0) =
     (Some NotInitialized, sample_running False 0)"
  using handle_read_ConfirmKey_throws [of "sample_running False 0" False sample_config
      "[2, 9]" "snd (sample_parse [2, 9])" "[9]" NotInitialized False None]
  by (simp add: sample_defs)

text \<open>
  A SignedData frame on which the engine's \<^verbatim>\<open>ConfirmHmacSignature\<close> throws: the
  exception leaves \<^verbatim>\<open>handle_read\<close>, and the session is as before but for the engine.
\<close>

theorem handle_read_ConfirmHmacSignature_throws:
  assumes "socket_is_open s" and "speke s = Some e"
    and "snd (ParseFromArray cfg body) = m"
    and "signed_data m = Some (hmac, data)"
    and "ConfirmHmacSignature (speke_iface cfg) hmac data e = (Inl x, e')"
  shows "handle_read cfg None (Inr body) wr s = (Some x, s\<lparr> speke := Some e' \<rparr>)"
  using assms by (simp add: handle_read_def receive_message_body)

theorem handle_read_ConfirmHmacSignature_throws_witness:
  "handle_read sample_config None (Inr [3, 7, 7]) None (sample_running False 0) =
     (Some NotInitialized, sample_running False 0)"
  using handle_read_ConfirmHmacSignature_throws [of "sample_running False 0" False
      sample_config "[3, 7, 7]" "snd (sample_parse [3, 7, 7])" "[7]" "[7]" NotInitialized
      False None]
  by (simp add: sample_defs)

text \<open>
  C2. Errors that leave the dispatcher. A session that is running and whose engine has
  not accepted a remote pair receives a KeyConfirmation frame, or a SignedData frame: the
  engine's \<open>NotInitialized\<close> leaves \<^verbatim>\<open>handle_read\<close>, and the session is as it was, in
  state \<open>RUNNING\<close>.
\<close>

theorem handle_read_raises_NotInitialized:
  "handle_read sample_config None (Inr [2, 9]) None (sample_running False 0) =
     (Some NotInitialized, sample_running False 0) \<and>
   handle_read sample_config None (Inr [3, 7, 7]) None (sample_running False 0) =
     (Some NotInitialized, sample_running False 0) \<and>
   state (sample_running False 0) = RUNNING"
  by (simp add: sample_defs handle_read_def receive_message_def ReceiveMessage_def)

subsection \<open>The invariant of the session\<close>

lemma inv_new: "SpekeSession_new socket_open speke_ptr = Inr s \<Longrightarrow> session_inv s"
  by (auto simp: SpekeSession_new_def session_inv_def split: if_splits option.splits)

lemma inv_Close: "session_inv s \<Longrightarrow> session_inv (Close st s)"
  by (auto simp: Close_def session_inv_def)

lemma inv_start_reading: "session_inv (start_reading s) = session_inv s"
  by (simp add: start_reading_def session_inv_def)

lemma inv_SetMessageHandler: "session_inv (SetMessageHandler h s) = session_inv s"
  by (simp add: SetMessageHandler_def session_inv_def)

lemma inv_state: "session_inv (s\<lparr> state := st \<rparr>) = session_inv s"
  by (simp add: session_inv_def)

lemma inv_delivered: "session_inv (s\<lparr> delivered := d \<rparr>) = session_inv s"
  by (simp add: session_inv_def)

lemma inv_count: "session_inv (s\<lparr> bad_behavior_count := n \<rparr>) = session_inv s"
  by (simp add: session_inv_def)

lemma inv_speke:
  "session_inv s \<Longrightarrow> speke s = Some e \<Longrightarrow> session_inv (s\<lparr> speke := Some e' \<rparr>)"
  by (auto simp: session_inv_def)

lemma inv_send_message: "session_inv s \<Longrightarrow> session_inv (snd (send_message wr m s))"
  by (cases wr)
     (auto simp: send_message_def SendMessage_socket_def Close_def session_inv_def)

lemma inv_SendMessage: "session_inv s \<Longrightarrow> session_inv (snd (SendMessage cfg m wr s))"
  by (auto simp: SendMessage_def inv_send_message inv_speke
      split: option.splits prod.splits sum.splits)

lemma inv_send_key_confirmation:
  "session_inv s \<Longrightarrow> session_inv (snd (send_key_confirmation cfg wr s))"
  by (auto simp: send_key_confirmation_def inv_send_message inv_speke
      split: option.splits prod.splits sum.splits)

lemma inv_Run: "session_inv s \<Longrightarrow> session_inv (snd (Run cfg h wr s))"
proof -
  assume i: "session_inv s"
  have "session_inv (snd (send_message wr m (start_reading (SetMessageHandler h s))))" for m
    using i by (simp add: inv_send_message inv_start_reading inv_SetMessageHandler)
  then show ?thesis
    using i
    by (auto simp: Run_def Let_def inv_SetMessageHandler inv_state
        split: option.splits prod.splits)
       (metis inv_state snd_conv)+
qed

lemma inv_api: "session_inv s \<Longrightarrow> session_inv (snd (api cfg c s))"
  by (cases c) (simp_all add: inv_Run inv_Close inv_SetMessageHandler inv_SendMessage)

lemma inv_run_calls: "session_inv s \<Longrightarrow> session_inv (snd (run_calls cfg cs s))"
proof (induction cs arbitrary: s)
  case Nil
  then show ?case by simp
next
  case (Cons c cs)
  obtain x s' where a: "api cfg c s = (x, s')" by (cases "api cfg c s")
  have i: "session_inv s'" using inv_api [OF Cons.prems, of cfg c] a by simp
  show ?case
    using a i Cons.IH [OF i] by (cases x) simp_all
qed

lemma inv_handle_message:
  "session_inv s \<Longrightarrow> session_inv (snd (handle_message cfg payload s))"
  by (simp add: handle_message_def inv_run_calls inv_delivered split: option.splits)

lemma inv_receive_message:
  "session_inv s \<Longrightarrow> session_inv (snd (receive_message cfg rd s))"
  by (auto simp: receive_message_def inv_Close
      split: sum.splits exn.splits)

lemma inv_increase:
  "session_inv s \<Longrightarrow> session_inv (increase_bad_behavior_count cfg s)"
  by (simp add: increase_bad_behavior_count_def Let_def inv_Close inv_count)

lemma inv_catch: "session_inv s \<Longrightarrow> session_inv (snd (handle_read_catch x s))"
  by (simp add: handle_read_catch_def inv_start_reading inv_Close)

lemma inv_handle_messageD:
  "handle_message cfg payload s = (x, s') \<Longrightarrow> session_inv s \<Longrightarrow> session_inv s'"
  using inv_handle_message [of s cfg payload] by simp

lemma inv_send_key_confirmationD:
  "send_key_confirmation cfg wr s = (x, s') \<Longrightarrow> session_inv s \<Longrightarrow> session_inv s'"
  using inv_send_key_confirmation [of s cfg wr] by simp

lemma inv_handle_read:
  assumes "session_inv s"
  shows "session_inv (snd (handle_read cfg ec rd wr s))"
proof (cases ec)
  case (Some c)
  then show ?thesis using assms by (simp add: handle_read_def inv_Close)
next
  case None
  obtain r s1 where rm: "receive_message cfg rd s = (r, s1)"
    by (cases "receive_message cfg rd s")
  have i1: "session_inv s1"
    using inv_receive_message [OF assms, of cfg rd] rm by simp
  have u: "session_inv (s1\<lparr> speke := Some e' \<rparr>)" if "speke s1 = Some e" for e e'
    using i1 that by (rule inv_speke)
  show ?thesis
    using None rm i1 u
    by (auto simp: handle_read_def inv_Close inv_start_reading inv_increase inv_catch
        split: option.splits prod.splits sum.splits bool.splits
        dest!: inv_handle_messageD inv_send_key_confirmationD)
qed

lemma inv_step: "session_inv s \<Longrightarrow> session_inv (snd (step cfg ev s))"
  by (cases ev) (simp_all add: inv_handle_read inv_api del: api.simps)

lemma inv_exec: "session_inv s \<Longrightarrow> session_inv (exec cfg evs s)"
proof (induction evs arbitrary: s)
  case Nil
  then show ?case by (simp add: exec_def)
next
  case (Cons ev evs)
  have "session_inv (snd (step cfg ev s))" using Cons.prems by (rule inv_step)
  then have "session_inv (exec cfg evs (snd (step cfg ev s)))" by (rule Cons.IH)
  then show ?case by (simp add: exec_def)
qed

text \<open>
  Every session that construction and any sequence of events lead to has its latch set
  exactly when its socket is closed and exactly when its engine has been released.
\<close>

theorem session_inv_reachable:
  assumes "SpekeSession_new socket_open speke_ptr = Inr s"
  shows "session_inv (exec cfg evs s)"
  using assms by (intro inv_exec inv_new)

theorem session_inv_reachable_witness:
  "SpekeSession_new True (Some False) = Inr sample_idle \<and>
   session_inv
     (exec sample_config
        [Call (CallRun 0 None), ReadReady None (Inr [1, 5]) None,
         ReadReady None (Inr [3, 7, 7]) None, ReadReady None (Inl (system_error eof)) None]
        sample_idle)"
  using session_inv_reachable [OF sample_idle_new, of sample_config
      "[Call (CallRun 0 None), ReadReady None (Inr [1, 5]) None,
        ReadReady None (Inr [3, 7, 7]) None, ReadReady None (Inl (system_error eof)) None]"]
    sample_idle_new
  by simp

section \<open>Properties of the engine\<close>

subsection \<open>Encodings\<close>



lemma to_string_small: "n < 10 \<Longrightarrow> to_string n = [digit_char n]"
  by (subst to_string.simps) simp



lemma from_bytes_snoc: "from_bytes (bs @ [b]) = from_bytes bs * 256 + unat b"
  by (simp add: from_bytes_def)

lemma to_bytes_zero: "to_bytes 0 = []"
  by (subst to_bytes.simps) simp

lemma to_bytes_pos: "0 < n \<Longrightarrow> to_bytes n = to_bytes (n div 256) @ [of_nat (n mod 256)]"
  by (subst to_bytes.simps) simp

lemma to_bytes_byte: "0 < n \<Longrightarrow> n < 256 \<Longrightarrow> to_bytes n = [of_nat n]"
  by (simp add: to_bytes_pos to_bytes_zero)

lemma from_bytes_to_bytes: "from_bytes (to_bytes n) = n"
proof (induction n rule: to_bytes.induct)
  case (1 n)
  show ?case
  proof (cases "n = 0")
    case True
    then show ?thesis by (simp add: to_bytes_zero from_bytes_def)
  next
    case False
    have u: "unat (of_nat (n mod 256) :: 8 word) = n mod 256"
      by (simp add: unat_of_nat)
    have "from_bytes (to_bytes n) = from_bytes (to_bytes (n div 256)) * 256 + n mod 256"
      using False u by (simp add: to_bytes_pos from_bytes_snoc)
    also have "\<dots> = n div 256 * 256 + n mod 256"
      using "1.IH" [OF False] by simp
    finally show ?thesis by simp
  qed
qed

subsection \<open>Construction and the counters\<close>




lemma SPEKE_new_Inr:
  assumes "SPEKE_new P name password safe_prime draw counts = (Inr A, counts1)"
  shows "safe_prime_p A = safe_prime"
    and "gen A = (from_bytes (Hash P password) mod safe_prime) ^ 2 mod safe_prime"
    and "pubkey A = gen A ^ privkey A mod safe_prime"
    and "id_numbered A = name @ ''-'' @ to_string_int (sint (count_of counts name + 1))"
    and "counts1 = counts(name \<mapsto> count_of counts name + 1)"
    and "\<not> initialized A"
  using assms
  by (auto simp: SPEKE_new_def Let_def split: if_splits)





lemma sample_alice_new:
  "SPEKE_new sample_primitives ''alice'' [5] 23 2 Map.empty =
     (Inr sample_alice, [''alice'' \<mapsto> 1])"
  by (simp add: SPEKE_new_def sample_primitives_def sample_alice_def from_bytes_def Let_def
      count_of_def to_string_int_def to_string_small digit_char_def)

lemma sample_bob_new:
  "SPEKE_new sample_primitives ''bob'' [5] 23 4 Map.empty =
     (Inr sample_bob, [''bob'' \<mapsto> 1])"
  by (simp add: SPEKE_new_def sample_primitives_def sample_bob_def from_bytes_def Let_def
      count_of_def to_string_int_def to_string_small digit_char_def)




subsection \<open>Accepting the remote pair\<close>

lemma provide_initialized:
  "initialized e \<Longrightarrow>
   SPEKE_ProvideRemotePublicKeyIdPair P k i e = (Some AlreadyInitialized, e)"
  by (simp add: SPEKE_ProvideRemotePublicKeyIdPair_def)

lemma provide_success_initialized:
  "SPEKE_ProvideRemotePublicKeyIdPair P k i e = (None, e') \<Longrightarrow> initialized e'"
  by (auto simp: SPEKE_ProvideRemotePublicKeyIdPair_def Let_def split: if_splits)

lemma provide_failure_unchanged:
  "SPEKE_ProvideRemotePublicKeyIdPair P k i e = (Some x, e') \<Longrightarrow> e' = e"
  by (auto simp: SPEKE_ProvideRemotePublicKeyIdPair_def Let_def split: if_splits)

lemma provide_pairs_initialized:
  "initialized e \<Longrightarrow>
   provide_pairs P calls e = (replicate (length calls) (Some AlreadyInitialized), e)"
  by (induction calls) (auto simp: provide_initialized)

lemma provide_pairs_successes:
  "length (filter (\<lambda>r. r = None) (fst (provide_pairs P calls e))) \<le> 1"
proof (induction calls arbitrary: e)
  case Nil
  show ?case by simp
next
  case (Cons call calls)
  obtain k i where c: "call = (k, i)" by (cases call)
  obtain r e' where p: "SPEKE_ProvideRemotePublicKeyIdPair P k i e = (r, e')"
    by (cases "SPEKE_ProvideRemotePublicKeyIdPair P k i e")
  obtain rs e'' where q: "provide_pairs P calls e' = (rs, e'')"
    by (cases "provide_pairs P calls e'")
  show ?case
  proof (cases r)
    case None
    then have "initialized e'" using p by (simp add: provide_success_initialized)
    then have "rs = replicate (length calls) (Some AlreadyInitialized)"
      using q by (simp add: provide_pairs_initialized)
    then show ?thesis using c p q None by simp
  next
    case (Some x)
    then show ?thesis using c p q Cons.IH [of e'] by simp
  qed
qed

lemma provide_success:
  assumes "SPEKE_ProvideRemotePublicKeyIdPair P k i e = (None, e')"
  shows "remote_id_numbered e' = i"
    and "remote_pubkey e' = from_bytes k"
    and "encryption_key e' =
           fst (make_encryption_key P
                  (make_keying_material P i (from_bytes k) e) (from_bytes k))"
    and "nonce e' =
           snd (make_encryption_key P
                  (make_keying_material P i (from_bytes k) e) (from_bytes k))"
    and "key_confirmation_data e' =
           Hmac P (encryption_key e')
             (bytes_of_string i @ bytes_of_string (id_numbered e) @
              to_bytes (from_bytes k) @ to_bytes (pubkey e))"
    and "id_numbered e' = id_numbered e" and "pubkey e' = pubkey e"
    and "initialized e'"
  using assms
  by (auto simp: SPEKE_ProvideRemotePublicKeyIdPair_def Let_def gen_kcd_def
      make_keying_material_def split: if_splits)

lemma sample_alice_provide:
  "SPEKE_ProvideRemotePublicKeyIdPair sample_primitives (SPEKE_GetPublicKey sample_bob)
     (id_numbered sample_bob) sample_alice = (None, sample_alice_accepted)"
  apply (simp add: SPEKE_ProvideRemotePublicKeyIdPair_def SPEKE_GetPublicKey_def
      sample_primitives_def sample_alice_def sample_bob_def sample_alice_accepted_def
      from_bytes_def Let_def to_bytes_byte)
  apply (simp add: make_keying_material_def to_bytes_byte bytes_of_string_def)
  apply (simp add: make_encryption_key_def gen_kcd_def bytes_of_string_def to_bytes_byte)
  done

lemma sample_bob_provide:
  "SPEKE_ProvideRemotePublicKeyIdPair sample_primitives (SPEKE_GetPublicKey sample_alice)
     (id_numbered sample_alice) sample_bob = (None, sample_bob_accepted)"
  apply (simp add: SPEKE_ProvideRemotePublicKeyIdPair_def SPEKE_GetPublicKey_def
      sample_primitives_def sample_alice_def sample_bob_def sample_bob_accepted_def
      from_bytes_def Let_def to_bytes_byte)
  apply (simp add: make_keying_material_def to_bytes_byte bytes_of_string_def)
  apply (simp add: make_encryption_key_def gen_kcd_def bytes_of_string_def to_bytes_byte)
  done

text \<open>
  C8. Once-only initialization. After a call of \<^verbatim>\<open>ProvideRemotePublicKeyIdPair\<close> that
  succeeds, a second call, with any key and id, fails with \<open>AlreadyInitialized\<close> and
  returns the engine as it was, so the encryption key, the nonce, the key confirmation
  data, the remote id and the remote key are those of the first call; the same holds for
  every later call. And in any sequence of calls on any engine at most one call succeeds.
\<close>

theorem once_only_initialization:
  "(SPEKE_ProvideRemotePublicKeyIdPair P k i e = (None, e') \<longrightarrow>
      SPEKE_ProvideRemotePublicKeyIdPair P k' i' e' = (Some AlreadyInitialized, e') \<and>
      provide_pairs P calls e' = (replicate (length calls) (Some AlreadyInitialized), e')) \<and>
   length (filter (\<lambda>r. r = None) (fst (provide_pairs P calls0 e0))) \<le> 1"
proof (intro conjI impI)
  assume "SPEKE_ProvideRemotePublicKeyIdPair P k i e = (None, e')"
  then have i: "initialized e'" by (rule provide_success_initialized)
  show "SPEKE_ProvideRemotePublicKeyIdPair P k' i' e' = (Some AlreadyInitialized, e')"
    using i by (rule provide_initialized)
  show "provide_pairs P calls e' = (replicate (length calls) (Some AlreadyInitialized), e')"
    using i by (rule provide_pairs_initialized)
next
  show "length (filter (\<lambda>r. r = None) (fst (provide_pairs P calls0 e0))) \<le> 1"
    by (rule provide_pairs_successes)
qed

theorem once_only_initialization_witness:
  "SPEKE_ProvideRemotePublicKeyIdPair sample_primitives [9] ''bob-1'' sample_alice
     = (None, sample_alice_accepted) \<and>
   SPEKE_ProvideRemotePublicKeyIdPair sample_primitives [7] ''eve-1'' sample_alice_accepted
     = (Some AlreadyInitialized, sample_alice_accepted) \<and>
   provide_pairs sample_primitives [([7], ''eve-1''), ([9], ''bob-1'')] sample_alice_accepted
     = ([Some AlreadyInitialized, Some AlreadyInitialized], sample_alice_accepted)"
proof -
  have 1: "SPEKE_ProvideRemotePublicKeyIdPair sample_primitives [9] ''bob-1'' sample_alice
             = (None, sample_alice_accepted)"
    using sample_alice_provide
    by (simp add: SPEKE_GetPublicKey_def sample_bob_def to_bytes_byte)
  show ?thesis
    using once_only_initialization [of sample_primitives "[9]" "''bob-1''" sample_alice
        sample_alice_accepted "[7]" "''eve-1''" "[([7], ''eve-1''), ([9], ''bob-1'')]"] 1
    by (simp del: provide_pairs.simps)
qed

subsection \<open>Both peers derive the same material\<close>

lemma shared_secret:
  "(g ^ b mod p) ^ a mod p = (g ^ a mod p) ^ b mod (p::nat)"
  by (simp add: power_mod flip: power_mult) (simp add: mult.commute)

text \<open>
  C1. Symmetry of derived material. Two engines are constructed with the same primitives,
  password and prime, with any ids, draws and counters. Each is given the other's public
  key and numbered id and accepts them. Then both have the same encryption key and the
  same nonce, the key confirmation data of each is what the other expects from its peer,
  and \<^verbatim>\<open>ConfirmKey\<close> of each accepts the data of the other.
\<close>

theorem symmetry_of_derived_material:
  assumes "SPEKE_new P id_A password safe_prime draw_A counts_A = (Inr A, counts_A')"
    and "SPEKE_new P id_B password safe_prime draw_B counts_B = (Inr B, counts_B')"
    and "SPEKE_ProvideRemotePublicKeyIdPair P (SPEKE_GetPublicKey B) (id_numbered B) A
           = (None, A')"
    and "SPEKE_ProvideRemotePublicKeyIdPair P (SPEKE_GetPublicKey A) (id_numbered A) B
           = (None, B')"
  shows "encryption_key A' = encryption_key B' \<and> nonce A' = nonce B' \<and>
         key_confirmation_data A' = kcd_remote P B' \<and>
         key_confirmation_data B' = kcd_remote P A' \<and>
         SPEKE_ConfirmKey P (key_confirmation_data A') B' = Inr True \<and>
         SPEKE_ConfirmKey P (key_confirmation_data B') A' = Inr True"
proof -
  note a = SPEKE_new_Inr [OF assms(1)] and b = SPEKE_new_Inr [OF assms(2)]
  note a' = provide_success [OF assms(3)] and b' = provide_success [OF assms(4)]
  have g: "gen A = gen B" using a(2) b(2) by simp
  have z: "pubkey B ^ privkey A mod safe_prime_p A = pubkey A ^ privkey B mod safe_prime_p B"
    using a(1,3) b(1,3) g shared_secret [of "gen B" "privkey B" safe_prime "privkey A"]
    by simp
  have km: "make_keying_material P (id_numbered B) (pubkey B) A =
            make_keying_material P (id_numbered A) (pubkey A) B"
    unfolding make_keying_material_def z
    by (simp add: min.commute max.commute)
  have key: "encryption_key A' = encryption_key B'"
    using a'(3) b'(3) km
    by (simp add: SPEKE_GetPublicKey_def from_bytes_to_bytes make_encryption_key_def Let_def)
  have non: "nonce A' = nonce B'"
    using a'(4) b'(4) km
    by (simp add: SPEKE_GetPublicKey_def from_bytes_to_bytes make_encryption_key_def Let_def)
  have ka: "key_confirmation_data A' = kcd_remote P B'"
    using a'(5) b'(1,2,6,7) key
    by (simp add: kcd_remote_def gen_kcd_def SPEKE_GetPublicKey_def from_bytes_to_bytes)
  have kb: "key_confirmation_data B' = kcd_remote P A'"
    using b'(5) a'(1,2,6,7) key
    by (simp add: kcd_remote_def gen_kcd_def SPEKE_GetPublicKey_def from_bytes_to_bytes)
  have "SPEKE_ConfirmKey P (key_confirmation_data A') B' = Inr True"
    using ka b'(8) by (simp add: SPEKE_ConfirmKey_def check_initialized_def)
  moreover have "SPEKE_ConfirmKey P (key_confirmation_data B') A' = Inr True"
    using kb a'(8) by (simp add: SPEKE_ConfirmKey_def check_initialized_def)
  ultimately show ?thesis using key non ka kb by simp
qed

theorem symmetry_of_derived_material_witness:
  "encryption_key sample_alice_accepted = [97, 108] \<and>
   encryption_key sample_bob_accepted = [97, 108] \<and>
   nonce sample_alice_accepted = [105] \<and> nonce sample_bob_accepted = [105] \<and>
   SPEKE_ConfirmKey sample_primitives
     (key_confirmation_data sample_alice_accepted) sample_bob_accepted = Inr True \<and>
   SPEKE_ConfirmKey sample_primitives
     (key_confirmation_data sample_bob_accepted) sample_alice_accepted = Inr True"
proof -
  note s = symmetry_of_derived_material
    [OF sample_alice_new sample_bob_new sample_alice_provide sample_bob_provide]
  have k: "encryption_key sample_alice_accepted = [97, 108]"
    and n: "nonce sample_alice_accepted = [105]"
    by (simp_all add: sample_alice_accepted_def)
  have "encryption_key sample_bob_accepted = [97, 108]"
    using s k by simp
  moreover have "nonce sample_bob_accepted = [105]"
    using s n by simp
  ultimately show ?thesis
    using s k n by blast
qed

end
